theory Spec2Isabelle
  imports Main "HOL-Library.Word"
begin

section \<open>Server-side client identity: crypto/server/manager.go\<close>

text \<open>
  The file embeds \<^verbatim>\<open>src/crypto/server/manager.go\<close>: the enrolment handler
  \<^verbatim>\<open>AddCertificateRequest\<close>, the resolver \<^verbatim>\<open>serverPublicKeyResolver\<close> with its
  methods \<^verbatim>\<open>GetPublicKey\<close>, \<^verbatim>\<open>SetPublicKey\<close> and \<^verbatim>\<open>DeleteSubject\<close>, its constructor
  \<^verbatim>\<open>NewServerPublicKeyResolver\<close>, and the callback that \<^verbatim>\<open>NewServerCryptoManager\<close>
  registers on the \<^verbatim>\<open>Server.Internal.ClientDelete\<close> queue.

  Everything mutable is explicit state: the resolver's negative cache and the datastore
  form a \<open>world\<close>, every operation takes the world and returns the new one. The reading
  of the clock (\<^verbatim>\<open>time.Now()\<close>) is an argument \<open>now\<close>, in nanoseconds. Logging is not
  modelled.
\<close>

subsection \<open>Go values\<close>

text \<open>A Go \<^verbatim>\<open>error\<close> value is its message; \<^verbatim>\<open>errors.New(msg)\<close> is \<open>Error msg\<close>. A nil
  error is \<open>None\<close> in an \<open>error option\<close>.\<close>

datatype error = Error string

type_synonym bytes = string

text \<open>\<^verbatim>\<open>time.Duration\<close> is a signed 64-bit count of nanoseconds; instants and the
  durations stored in the cache are read as integers.\<close>

type_synonym Duration = "64 word"
type_synonym nanos = int

definition Second :: Duration where
  "Second = 1000000000"

subsection \<open>Keys and certificate requests\<close>

datatype rsa_PublicKey = rsa_PublicKey (rsa_N: int) (rsa_E: int)

text \<open>\<^verbatim>\<open>x509.PublicKeyAlgorithm\<close>, and the \<^verbatim>\<open>PublicKey any\<close> field of a parsed request:
  either a \<^verbatim>\<open>*rsa.PublicKey\<close> or a key of another dynamic type.\<close>

datatype PublicKeyAlgorithm = UnknownPublicKeyAlgorithm | RSA | DSA | ECDSA | Ed25519

datatype any_PublicKey = RSAKey rsa_PublicKey | OtherKey bytes

record CertificateRequest =
  PublicKeyAlgorithm :: PublicKeyAlgorithm
  PublicKey :: any_PublicKey
  Subject_CommonName :: string

subsection \<open>Configuration\<close>

text \<open>The two parts of \<^verbatim>\<open>config_proto.Config\<close> that the file reads: the optional
  \<^verbatim>\<open>Defaults\<close> section with its signed 64-bit \<^verbatim>\<open>UnauthenticatedLruTimeoutSec\<close>, and the
  organisation id that qualifies client ids.\<close>

record config_Defaults =
  UnauthenticatedLruTimeoutSec :: "64 word"

record Config =
  Defaults :: "config_Defaults option"
  OrgId :: string

subsection \<open>Collaborators outside the file\<close>

text \<open>
  The functions of \<^verbatim>\<open>crypto_utils\<close>, \<^verbatim>\<open>utils\<close> and \<^verbatim>\<open>paths\<close> that the file calls are
  not part of it; they are parameters of the model, collected in one record:
  \<^item> \<open>ParseX509CSRFromPemStr\<close>: \<^verbatim>\<open>crypto_utils.ParseX509CSRFromPemStr\<close>;
  \<^item> \<open>ClientIDFromPublicKey\<close>: \<^verbatim>\<open>crypto_utils.ClientIDFromPublicKey\<close>;
  \<^item> \<open>ClientIdFromConfigObj\<close>: \<^verbatim>\<open>utils.ClientIdFromConfigObj\<close>;
  \<^item> \<open>PublicKeyToPem\<close>, \<open>PemToPublicKey\<close>: the PEM codec of \<^verbatim>\<open>crypto_utils\<close>;
  \<^item> \<open>ClientKey\<close>: \<^verbatim>\<open>paths.NewClientPathManager(client_id).Key()\<close>.
\<close>

record externals =
  ParseX509CSRFromPemStr :: "bytes \<Rightarrow> error + CertificateRequest"
  ClientIDFromPublicKey :: "rsa_PublicKey \<Rightarrow> string"
  ClientIdFromConfigObj :: "string \<Rightarrow> Config \<Rightarrow> string"
  PublicKeyToPem :: "rsa_PublicKey \<Rightarrow> bytes"
  PemToPublicKey :: "bytes \<Rightarrow> error + rsa_PublicKey"
  ClientKey :: "string \<Rightarrow> string"

subsection \<open>The datastore\<close>

text \<open>\<^verbatim>\<open>crypto_proto.PublicKey\<close>: the persisted record.\<close>

record PublicKey_proto =
  Pem :: bytes
  EnrollTime :: "64 word"

text \<open>
  Modelled from the spec: the datastore (\<^verbatim>\<open>datastore.GetDB\<close>, \<^verbatim>\<open>GetSubject\<close>,
  \<^verbatim>\<open>SetSubjectWithCompletion\<close>) is an external collaborator, consumed through the
  contract \<^verbatim>\<open>get(path) -> PublicKeyRecord | notFound\<close>,
  \<^verbatim>\<open>set(path, PublicKeyRecord) -> error\<close>, one record per path. The state holds the
  records, the faults the store currently suffers (obtaining the handle, reading a path,
  writing a path), and a counter of the record reads issued so far. A failed write leaves
  the records as they were.
\<close>

record datastore =
  subjects :: "string \<rightharpoonup> PublicKey_proto"
  GetDB_fault :: "Config \<Rightarrow> error option"
  GetSubject_fault :: "string \<Rightarrow> error option"
  SetSubject_fault :: "string \<Rightarrow> error option"
  reads :: nat

definition GetDB :: "datastore \<Rightarrow> Config \<Rightarrow> error option" where
  "GetDB ds config_obj = GetDB_fault ds config_obj"

definition ErrNotExist :: error where
  "ErrNotExist = Error ''file does not exist''"

definition GetSubject ::
  "datastore \<Rightarrow> Config \<Rightarrow> string \<Rightarrow> (error + PublicKey_proto) \<times> datastore" where
  "GetSubject ds config_obj path =
     (let ds' = ds\<lparr>reads := Suc (reads ds)\<rparr> in
      case GetSubject_fault ds path of
        Some err \<Rightarrow> (Inl err, ds')
      | None \<Rightarrow>
          (case subjects ds path of
             None \<Rightarrow> (Inl ErrNotExist, ds')
           | Some pem \<Rightarrow> (Inr pem, ds')))"

definition SetSubjectWithCompletion ::
  "datastore \<Rightarrow> Config \<Rightarrow> string \<Rightarrow> PublicKey_proto \<Rightarrow> error option \<times> datastore" where
  "SetSubjectWithCompletion ds config_obj path pem =
     (case SetSubject_fault ds path of
        Some err \<Rightarrow> (Some err, ds)
      | None \<Rightarrow> (None, ds\<lparr>subjects := (subjects ds)(path \<mapsto> pem)\<rparr>))"

subsection \<open>The TTL cache\<close>

text \<open>
  Modelled from the spec: the cache library (\<^verbatim>\<open>ttlcache.Cache\<close>) is not part of the
  file. An entry is a marker with a fixed expiry computed at insertion time from the
  cache's TTL; with extension-on-hit switched off a lookup does not move the expiry.
  Following the library, an entry carries the TTL it was inserted with and expires only
  when that TTL is positive: a cache whose TTL was never set (the zero duration) keeps
  its entries until they are removed. A lookup of an expired or absent key fails with
  \<open>ErrNotFound\<close>.
\<close>

record item =
  item_ttl :: nanos
  expireAt :: nanos

record Cache =
  items :: "string \<rightharpoonup> item"
  ttl :: nanos
  skipTTLExtension :: bool

definition ErrNotFound :: error where
  "ErrNotFound = Error ''key not found''"

definition NewCache :: Cache where
  "NewCache = \<lparr>items = Map.empty, ttl = 0, skipTTLExtension = False\<rparr>"

definition SetTTL :: "Cache \<Rightarrow> Duration \<Rightarrow> Cache" where
  "SetTTL c d = c\<lparr>ttl := sint d\<rparr>"

definition SkipTTLExtensionOnHit :: "Cache \<Rightarrow> bool \<Rightarrow> Cache" where
  "SkipTTLExtensionOnHit c b = c\<lparr>skipTTLExtension := b\<rparr>"

definition touch :: "item \<Rightarrow> nanos \<Rightarrow> item" where
  "touch it now = (if 0 < item_ttl it then it\<lparr>expireAt := now + item_ttl it\<rparr> else it)"

definition expired :: "item \<Rightarrow> nanos \<Rightarrow> bool" where
  "expired it now = (if item_ttl it \<le> 0 then False else expireAt it < now)"

definition Cache_Get :: "Cache \<Rightarrow> string \<Rightarrow> nanos \<Rightarrow> error option \<times> Cache" where
  "Cache_Get c key now =
     (case items c key of
        None \<Rightarrow> (Some ErrNotFound, c)
      | Some it \<Rightarrow>
          if expired it now then (Some ErrNotFound, c)
          else if skipTTLExtension c then (None, c)
          else (None, c\<lparr>items := (items c)(key \<mapsto> touch it now)\<rparr>))"

definition Cache_Set :: "Cache \<Rightarrow> string \<Rightarrow> nanos \<Rightarrow> Cache" where
  "Cache_Set c key now =
     c\<lparr>items := (items c)(key \<mapsto> touch \<lparr>item_ttl = ttl c, expireAt = 0\<rparr> now)\<rparr>"

definition Cache_Remove :: "Cache \<Rightarrow> string \<Rightarrow> Cache" where
  "Cache_Remove c key = c\<lparr>items := (items c)(key := None)\<rparr>"

subsection \<open>The resolver\<close>

record serverPublicKeyResolver =
  negative_lru :: Cache

record world =
  resolver :: serverPublicKeyResolver
  store :: datastore

definition with_lru :: "world \<Rightarrow> Cache \<Rightarrow> world" where
  "with_lru w c = w\<lparr>resolver := (resolver w)\<lparr>negative_lru := c\<rparr>\<rparr>"

definition DeleteSubject :: "world \<Rightarrow> string \<Rightarrow> world" where
  "DeleteSubject w client_id =
     with_lru w (Cache_Remove (negative_lru (resolver w)) client_id)"

definition GetPublicKey ::
  "externals \<Rightarrow> nanos \<Rightarrow> world \<Rightarrow> Config \<Rightarrow> string
     \<Rightarrow> (rsa_PublicKey option \<times> bool) \<times> world" where
  "GetPublicKey ext now w config_obj client_id =
     (case Cache_Get (negative_lru (resolver w)) client_id now of
        (None, c) \<Rightarrow> ((None, False), with_lru w c)
      | (Some _, c) \<Rightarrow>
          (let w1 = with_lru w c;
               client_path = ClientKey ext client_id
           in case GetDB (store w1) config_obj of
                Some err \<Rightarrow> ((None, False), w1)
              | None \<Rightarrow>
                  (case GetSubject (store w1) config_obj client_path of
                     (Inl err, ds) \<Rightarrow>
                       ((None, False),
                        with_lru (w1\<lparr>store := ds\<rparr>) (Cache_Set c client_id now))
                   | (Inr pem, ds) \<Rightarrow>
                       (case PemToPublicKey ext (Pem pem) of
                          Inl err \<Rightarrow>
                            ((None, False),
                             with_lru (w1\<lparr>store := ds\<rparr>) (Cache_Set c client_id now))
                        | Inr key \<Rightarrow> ((Some key, True), w1\<lparr>store := ds\<rparr>)))))"

definition SetPublicKey ::
  "externals \<Rightarrow> nanos \<Rightarrow> world \<Rightarrow> Config \<Rightarrow> string \<Rightarrow> rsa_PublicKey
     \<Rightarrow> error option \<times> world" where
  "SetPublicKey ext now w config_obj client_id key =
     (let w1 = with_lru w (Cache_Remove (negative_lru (resolver w)) client_id);
          client_path = ClientKey ext client_id
      in case GetDB (store w1) config_obj of
           Some err \<Rightarrow> (Some err, w1)
         | None \<Rightarrow>
             (let pem = \<lparr>Pem = PublicKeyToPem ext key,
                        EnrollTime = word_of_int (now div 1000000000)\<rparr>
              in case SetSubjectWithCompletion (store w1) config_obj client_path pem of
                   (err, ds) \<Rightarrow> (err, w1\<lparr>store := ds\<rparr>)))"

text \<open>The constructor. The goroutine that closes the cache when the context ends is not
  modelled; the error it returns is always nil.\<close>

definition NewServerPublicKeyResolver ::
  "Config \<Rightarrow> serverPublicKeyResolver \<times> error option" where
  "NewServerPublicKeyResolver config_obj =
     (let result = \<lparr>negative_lru = NewCache\<rparr>;
          timeout = 10 * Second;
          finish = (\<lambda>timeout.
            (result\<lparr>negative_lru :=
               SkipTTLExtensionOnHit (SetTTL (negative_lru result) timeout) True\<rparr>, None))
      in case Defaults config_obj of
           None \<Rightarrow> finish timeout
         | Some d \<Rightarrow>
             if sint (UnauthenticatedLruTimeoutSec d) < 0 then (result, None)
             else if 0 < sint (UnauthenticatedLruTimeoutSec d)
               then finish (UnauthenticatedLruTimeoutSec d * Second)
             else finish timeout)"

subsection \<open>Enrolment\<close>

text \<open>The result is the pair the Go function returns, with the new world; \<open>None\<close> is the
  panic of the type assertion \<^verbatim>\<open>csr.PublicKey.(*rsa.PublicKey)\<close> on a key of another
  dynamic type.\<close>

definition AddCertificateRequest ::
  "externals \<Rightarrow> nanos \<Rightarrow> world \<Rightarrow> Config \<Rightarrow> bytes
     \<Rightarrow> ((string \<times> error option) \<times> world) option" where
  "AddCertificateRequest ext now w config_obj csr_pem =
     (case ParseX509CSRFromPemStr ext csr_pem of
        Inl err \<Rightarrow> Some (('''', Some err), w)
      | Inr csr \<Rightarrow>
          if PublicKeyAlgorithm csr \<noteq> RSA
          then Some (('''', Some (Error ''Not RSA algorithm'')), w)
          else
            (let common_name = Subject_CommonName csr in
             case PublicKey csr of
               OtherKey _ \<Rightarrow> None
             | RSAKey public_key \<Rightarrow>
                 if common_name \<noteq> ClientIDFromPublicKey ext public_key
                 then Some (('''', Some (Error ''Invalid CSR'')), w)
                 else
                   (case SetPublicKey ext now w config_obj
                           (ClientIdFromConfigObj ext common_name config_obj) public_key of
                      (Some err, w') \<Rightarrow> Some (('''', Some err), w')
                    | (None, w') \<Rightarrow>
                        (let client_id =
                               ClientIdFromConfigObj ext (Subject_CommonName csr) config_obj
                         in Some ((client_id, None), w')))))"

subsection \<open>The deletion listener\<close>

text \<open>A row of the queue is an \<^verbatim>\<open>ordereddict.Dict\<close>; \<^verbatim>\<open>GetString\<close> yields the value
  of a key when the key is present and holds a string.\<close>

datatype dict_value = VString string | VInt int | VBool bool | VNil

type_synonym Dict = "(string \<times> dict_value) list"

definition GetString :: "Dict \<Rightarrow> string \<Rightarrow> string \<times> bool" where
  "GetString row key =
     (case map_of row key of
        Some (VString s) \<Rightarrow> (s, True)
      | _ \<Rightarrow> ('''', False))"

text \<open>The callback passed to \<^verbatim>\<open>journal.WatchQueueWithCB\<close>.\<close>

definition ClientDelete_callback :: "world \<Rightarrow> Config \<Rightarrow> Dict \<Rightarrow> error option \<times> world" where
  "ClientDelete_callback w config_obj row =
     (case GetString row ''ClientId'' of
        (client_id, pres) \<Rightarrow>
          if pres then (None, DeleteSubject w client_id) else (None, w))"

subsection \<open>A concrete deployment\<close>

text \<open>Two keys, a codec and a parser on a handful of inputs, a healthy empty datastore and
  a resolver built from the default configuration: the concrete inputs at which the
  theorems below are instantiated.\<close>

definition keyA :: rsa_PublicKey where "keyA = rsa_PublicKey 3233 17"
definition keyB :: rsa_PublicKey where "keyB = rsa_PublicKey 2773 65537"

definition csr_A :: CertificateRequest where
  "csr_A = \<lparr>PublicKeyAlgorithm = RSA, PublicKey = RSAKey keyA,
            Subject_CommonName = ''C.abcd1234''\<rparr>"

definition demo_ext :: externals where
  "demo_ext = \<lparr>
     ParseX509CSRFromPemStr = (\<lambda>b.
       if b = ''csr-A'' then Inr csr_A
       else if b = ''csr-forged'' then Inr \<lparr>PublicKeyAlgorithm = RSA, PublicKey = RSAKey keyB,
                                  Subject_CommonName = ''C.abcd1234''\<rparr>
       else if b = ''csr-ec'' then Inr \<lparr>PublicKeyAlgorithm = ECDSA, PublicKey = OtherKey ''P-256'',
                                  Subject_CommonName = ''C.abcd1234''\<rparr>
       else Inl (Error ''failed to parse PEM block'')),
     ClientIDFromPublicKey = (\<lambda>k. if k = keyA then ''C.abcd1234'' else ''C.ffff0000''),
     ClientIdFromConfigObj = (\<lambda>source c. if OrgId c = [] then source else source @ ''-'' @ OrgId c),
     PublicKeyToPem = (\<lambda>k. if k = keyA then ''PEM-A'' else ''PEM-B''),
     PemToPublicKey = (\<lambda>p. if p = ''PEM-A'' then Inr keyA
                             else if p = ''PEM-B'' then Inr keyB
                             else Inl (Error ''no PEM data'')),
     ClientKey = (\<lambda>client_id. ''/clients/'' @ client_id @ ''/key'')\<rparr>"

definition demo_config :: Config where
  "demo_config = \<lparr>Defaults = None, OrgId = ''''\<rparr>"

definition demo_store :: datastore where
  "demo_store = \<lparr>subjects = Map.empty, GetDB_fault = (\<lambda>_. None),
     GetSubject_fault = (\<lambda>_. None), SetSubject_fault = (\<lambda>_. None), reads = 0\<rparr>"

definition demo_world :: world where
  "demo_world = \<lparr>resolver = fst (NewServerPublicKeyResolver demo_config), store = demo_store\<rparr>"

text \<open>Further worlds and configurations: a datastore that cannot be obtained, one that
  cannot write, a negative entry already present, the worlds after binding, and the
  settings of the negative-cache timeout.\<close>

definition outage_world :: world where
  "outage_world = demo_world\<lparr>store := demo_store\<lparr>GetDB_fault :=
     (\<lambda>_. Some (Error ''no datastore configured''))\<rparr>\<rparr>"

definition shadowed_world :: world where
  "shadowed_world =
     with_lru demo_world (Cache_Set (negative_lru (resolver demo_world)) ''C.abcd1234'' 0)"

definition world_A :: world where
  "world_A = snd (SetPublicKey demo_ext 0 demo_world demo_config ''C.abcd1234'' keyA)"

definition world_A' :: world where
  "world_A' = snd (GetPublicKey demo_ext 1 world_A demo_config ''C.abcd1234'')"

definition world_B :: world where
  "world_B = snd (SetPublicKey demo_ext 2 world_A' demo_config ''C.abcd1234'' keyB)"

definition demo_org_config :: Config where
  "demo_org_config = \<lparr>Defaults = None, OrgId = ''O123''\<rparr>"

definition full_disk_world :: world where
  "full_disk_world = demo_world\<lparr>store := demo_store\<lparr>SetSubject_fault :=
     (\<lambda>_. Some (Error ''no space left on device''))\<rparr>\<rparr>"

definition read_fault_world :: world where
  "read_fault_world = demo_world\<lparr>store := demo_store\<lparr>GetSubject_fault :=
     (\<lambda>_. Some (Error ''input/output error''))\<rparr>\<rparr>"

definition strict_ext :: externals where
  "strict_ext = demo_ext\<lparr>PemToPublicKey :=
     (\<lambda>p. if p = ''PEM-A'' then Inr keyA else Inl (Error ''public key exponent too large''))\<rparr>"

definition shadowed_full_disk_world :: world where
  "shadowed_full_disk_world =
     with_lru full_disk_world
       (Cache_Set (negative_lru (resolver full_disk_world)) ''C.abcd1234'' 0)"

definition negative_config :: Config where
  "negative_config = \<lparr>Defaults = Some \<lparr>UnauthenticatedLruTimeoutSec = - 1\<rparr>, OrgId = ''''\<rparr>"

definition negative_world :: world where
  "negative_world =
     \<lparr>resolver = fst (NewServerPublicKeyResolver negative_config), store = demo_store\<rparr>"

definition negative_world_1 :: world where
  "negative_world_1 = snd (GetPublicKey demo_ext 0 negative_world negative_config ''C.unknown'')"

definition minute_config :: Config where
  "minute_config = \<lparr>Defaults = Some \<lparr>UnauthenticatedLruTimeoutSec = 60\<rparr>, OrgId = ''''\<rparr>"

definition zero_config :: Config where
  "zero_config = \<lparr>Defaults = Some \<lparr>UnauthenticatedLruTimeoutSec = 0\<rparr>, OrgId = ''''\<rparr>"

definition huge_config :: Config where
  "huge_config = \<lparr>Defaults = Some \<lparr>UnauthenticatedLruTimeoutSec = 9223372037\<rparr>, OrgId = ''''\<rparr>"

section \<open>Auxiliary facts\<close>

lemmas demo_defs = demo_world_def demo_store_def demo_config_def demo_ext_def keyA_def keyB_def
  NewServerPublicKeyResolver_def NewCache_def SetTTL_def SkipTTLExtensionOnHit_def Second_def

lemma Cache_Get_Remove:
  "Cache_Get (Cache_Remove c key) key now = (Some ErrNotFound, Cache_Remove c key)"
  by (simp add: Cache_Get_def Cache_Remove_def)

lemma Cache_Get_Set_live:
  "ttl c \<le> 0 \<or> t \<le> now + ttl c \<Longrightarrow> fst (Cache_Get (Cache_Set c key now) key t) = None"
  by (auto simp: Cache_Get_def Cache_Set_def touch_def expired_def)

lemma Cache_Get_Set_expired:
  "0 < ttl c \<Longrightarrow> now + ttl c < t \<Longrightarrow>
   Cache_Get (Cache_Set c key now) key t = (Some ErrNotFound, Cache_Set c key now)"
  by (auto simp: Cache_Get_def Cache_Set_def touch_def expired_def)

lemma sint_seconds:
  fixes s :: "64 word"
  assumes "0 < sint s" "sint s \<le> 9223372036"
  shows "sint (s * Second) = sint s * 1000000000"
proof -
  have "sint (s * Second) = signed_take_bit 63 (sint s * 1000000000)"
    by (simp add: Second_def sint_word_ariths)
  also have "\<dots> = sint s * 1000000000"
    using assms by (intro signed_take_bit_int_eq_self) auto
  finally show ?thesis .
qed

lemma sint_ten_seconds: "sint (10 * Second) = 10000000000"
  by (simp add: Second_def)

lemma with_lru_same [simp]: "with_lru w (negative_lru (resolver w)) = w"
  by (simp add: with_lru_def)

lemma with_lru_sel [simp]:
  "store (with_lru w c) = store w"
  "negative_lru (resolver (with_lru w c)) = c"
  by (simp_all add: with_lru_def)

lemma Cache_Get_miss_iff:
  "fst (Cache_Get c key now) \<noteq> None \<longleftrightarrow> Cache_Get c key now = (Some ErrNotFound, c)"
  by (auto simp: Cache_Get_def split: option.splits if_splits)

lemma GetSubject_snd: "snd (GetSubject ds cfg p) = ds\<lparr>reads := Suc (reads ds)\<rparr>"
  by (simp add: GetSubject_def Let_def split: option.splits)

lemma GetPublicKey_hit:
  assumes "fst (Cache_Get (negative_lru (resolver w)) client_id now) = None"
  shows "fst (GetPublicKey ext now w config_obj client_id) = (None, False)"
    and "store (snd (GetPublicKey ext now w config_obj client_id)) = store w"
  using assms by (auto simp: GetPublicKey_def split: prod.splits option.splits)

lemma GetPublicKey_miss:
  assumes "fst (Cache_Get (negative_lru (resolver w)) client_id now) \<noteq> None"
  shows "GetPublicKey ext now w config_obj client_id =
     (case GetDB (store w) config_obj of
        Some err \<Rightarrow> ((None, False), w)
      | None \<Rightarrow>
          (let ds = (store w)\<lparr>reads := Suc (reads (store w))\<rparr> in
           case fst (GetSubject (store w) config_obj (ClientKey ext client_id)) of
             Inl err \<Rightarrow> ((None, False),
               with_lru (w\<lparr>store := ds\<rparr>) (Cache_Set (negative_lru (resolver w)) client_id now))
           | Inr pem \<Rightarrow>
               (case PemToPublicKey ext (Pem pem) of
                  Inl err \<Rightarrow> ((None, False),
                    with_lru (w\<lparr>store := ds\<rparr>) (Cache_Set (negative_lru (resolver w)) client_id now))
                | Inr key \<Rightarrow> ((Some key, True), w\<lparr>store := ds\<rparr>))))"
proof -
  from assms have m: "Cache_Get (negative_lru (resolver w)) client_id now
      = (Some ErrNotFound, negative_lru (resolver w))"
    using Cache_Get_miss_iff by blast
  have s: "\<And>p. snd (GetSubject (store w) config_obj p) = (store w)\<lparr>reads := Suc (reads (store w))\<rparr>"
    by (rule GetSubject_snd)
  show ?thesis
    unfolding GetPublicKey_def m
    using s [of "ClientKey ext client_id"]
    by (cases "GetSubject (store w) config_obj (ClientKey ext client_id)")
       (auto simp: Let_def split: option.splits sum.splits)
qed

lemma GetPublicKey_result_shape:
  "fst (GetPublicKey ext now w config_obj client_id) = (None, False) \<or>
   (\<exists>key. fst (GetPublicKey ext now w config_obj client_id) = (Some key, True))"
  by (auto simp: GetPublicKey_def Let_def split: prod.splits option.splits sum.splits)

lemma Cache_Get_miss_mono:
  "fst (Cache_Get c key now) \<noteq> None \<Longrightarrow> now \<le> t \<Longrightarrow> fst (Cache_Get c key t) \<noteq> None"
  unfolding Cache_Get_def expired_def
  by (cases "items c key") (simp_all split: if_splits)

lemma SetPublicKey_eq:
  "SetPublicKey ext now w config_obj client_id key =
     (let w1 = with_lru w (Cache_Remove (negative_lru (resolver w)) client_id);
          path = ClientKey ext client_id
      in case GetDB (store w) config_obj of
           Some err \<Rightarrow> (Some err, w1)
         | None \<Rightarrow>
            (case SetSubject_fault (store w) path of
               Some err \<Rightarrow> (Some err, w1)
             | None \<Rightarrow> (None, w1\<lparr>store := (store w)\<lparr>subjects := (subjects (store w))(path \<mapsto>
                  \<lparr>Pem = PublicKeyToPem ext key,
                   EnrollTime = word_of_int (now div 1000000000)\<rparr>)\<rparr>\<rparr>)))"
  by (simp add: SetPublicKey_def SetSubjectWithCompletion_def Let_def with_lru_def
      split: option.splits)

lemma SetPublicKey_success:
  assumes "SetPublicKey ext now w config_obj client_id key = (None, w1)"
  shows "GetDB (store w) config_obj = None"
    and "w1 = (with_lru w (Cache_Remove (negative_lru (resolver w)) client_id))
            \<lparr>store := (store w)\<lparr>subjects := (subjects (store w))(ClientKey ext client_id \<mapsto>
                  \<lparr>Pem = PublicKeyToPem ext key,
                   EnrollTime = word_of_int (now div 1000000000)\<rparr>)\<rparr>\<rparr>"
  using assms unfolding SetPublicKey_eq Let_def
  by (simp_all split: option.splits)

lemma SetPublicKey_failure:
  assumes "SetPublicKey ext now w config_obj client_id key = (Some err, w1)"
  shows "w1 = with_lru w (Cache_Remove (negative_lru (resolver w)) client_id)"
  using assms unfolding SetPublicKey_eq Let_def
  by (simp split: option.splits)

lemma GetPublicKey_store:
  "store (snd (GetPublicKey ext now w config_obj client_id)) = store w \<or>
   store (snd (GetPublicKey ext now w config_obj client_id))
     = (store w)\<lparr>reads := Suc (reads (store w))\<rparr>"
proof (cases "fst (Cache_Get (negative_lru (resolver w)) client_id now) = None")
  case True
  then show ?thesis by (simp add: GetPublicKey_hit)
next
  case False
  show ?thesis
    unfolding GetPublicKey_miss [OF False]
    by (simp add: Let_def split: option.splits sum.splits)
qed

lemma GetPublicKey_bound:
  assumes rt: "PemToPublicKey ext (PublicKeyToPem ext key) = Inr key"
    and nc: "items (negative_lru (resolver w)) client_id = None"
    and db: "GetDB (store w) config_obj = None"
    and rd: "GetSubject_fault (store w) (ClientKey ext client_id) = None"
    and rec: "subjects (store w) (ClientKey ext client_id) = Some pem"
    and pem: "Pem pem = PublicKeyToPem ext key"
  shows "GetPublicKey ext t w config_obj client_id =
     ((Some key, True), w\<lparr>store := (store w)\<lparr>reads := Suc (reads (store w))\<rparr>\<rparr>)"
proof -
  have miss: "fst (Cache_Get (negative_lru (resolver w)) client_id t) \<noteq> None"
    using nc by (simp add: Cache_Get_def)
  have g: "fst (GetSubject (store w) config_obj (ClientKey ext client_id)) = Inr pem"
    using rd rec by (simp add: GetSubject_def Let_def)
  show ?thesis
    unfolding GetPublicKey_miss [OF miss] db g by (simp add: Let_def pem rt)
qed

lemma resolves_bound:
  assumes rt: "PemToPublicKey ext (PublicKeyToPem ext key) = Inr key"
    and nc: "items (negative_lru (resolver w)) client_id = None"
    and db: "GetDB (store w) config_obj = None"
    and rd: "GetSubject_fault (store w) (ClientKey ext client_id) = None"
    and rec: "subjects (store w) (ClientKey ext client_id) = Some pem"
    and pem: "Pem pem = PublicKeyToPem ext key"
  shows "resolver (foldl (\<lambda>w t. snd (GetPublicKey ext t w config_obj client_id)) w ts)
           = resolver w \<and>
         store (foldl (\<lambda>w t. snd (GetPublicKey ext t w config_obj client_id)) w ts)
           = (store w)\<lparr>reads := reads (store w) + length ts\<rparr>"
  using nc db rd rec
proof (induction ts arbitrary: w)
  case Nil
  show ?case by simp
next
  case (Cons t ts)
  define w' where "w' = w\<lparr>store := (store w)\<lparr>reads := Suc (reads (store w))\<rparr>\<rparr>"
  have step: "snd (GetPublicKey ext t w config_obj client_id) = w'"
    unfolding w'_def
    using GetPublicKey_bound [OF rt Cons.prems(1) Cons.prems(2) Cons.prems(3) Cons.prems(4) pem]
    by simp
  have "resolver (foldl (\<lambda>w t. snd (GetPublicKey ext t w config_obj client_id)) w' ts)
           = resolver w' \<and>
        store (foldl (\<lambda>w t. snd (GetPublicKey ext t w config_obj client_id)) w' ts)
           = (store w')\<lparr>reads := reads (store w') + length ts\<rparr>"
    using Cons.prems by (intro Cons.IH) (simp_all add: w'_def GetDB_def)
  then show ?case
    by (simp add: step) (simp add: w'_def)
qed

lemma bind_then_resolves:
  fixes ts :: "nanos list"
  assumes rt: "PemToPublicKey ext (PublicKeyToPem ext key) = Inr key"
    and rd: "GetSubject_fault (store w) (ClientKey ext client_id) = None"
    and bind: "SetPublicKey ext t0 w config_obj client_id key = (None, w1)"
  defines "wn \<equiv> foldl (\<lambda>w t. snd (GetPublicKey ext t w config_obj client_id)) w1 ts"
  shows "GetPublicKey ext t wn config_obj client_id =
           ((Some key, True), wn\<lparr>store := (store wn)\<lparr>reads := Suc (reads (store wn))\<rparr>\<rparr>)"
    and "resolver wn = resolver w1"
    and "store wn = (store w1)\<lparr>reads := reads (store w1) + length ts\<rparr>"
    and "GetSubject_fault (store wn) = GetSubject_fault (store w)"
proof -
  note w1 = SetPublicKey_success(2) [OF bind]
  define pem where "pem = \<lparr>Pem = PublicKeyToPem ext key,
      EnrollTime = (word_of_int (t0 div 1000000000) :: 64 word)\<rparr>"
  have nc: "items (negative_lru (resolver w1)) client_id = None"
    by (simp add: w1 with_lru_def Cache_Remove_def)
  have db: "GetDB (store w1) config_obj = None"
    using SetPublicKey_success(1) [OF bind] by (simp add: w1 GetDB_def)
  have rd1: "GetSubject_fault (store w1) (ClientKey ext client_id) = None"
    using rd by (simp add: w1)
  have rec: "subjects (store w1) (ClientKey ext client_id) = Some pem"
    by (simp add: w1 pem_def)
  have pem: "Pem pem = PublicKeyToPem ext key" by (simp add: pem_def)
  note inv = resolves_bound [OF rt nc db rd1 rec pem, of ts, folded wn_def]
  from inv show r: "resolver wn = resolver w1"
    and s: "store wn = (store w1)\<lparr>reads := reads (store w1) + length ts\<rparr>"
    by simp_all
  show "GetSubject_fault (store wn) = GetSubject_fault (store w)"
    by (simp add: s) (simp add: w1)
  show "GetPublicKey ext t wn config_obj client_id =
           ((Some key, True), wn\<lparr>store := (store wn)\<lparr>reads := Suc (reads (store wn))\<rparr>\<rparr>)"
  proof (rule GetPublicKey_bound [OF rt _ _ _ _ pem])
    show "items (negative_lru (resolver wn)) client_id = None" by (simp add: r nc)
    show "GetDB (store wn) config_obj = None" using db by (simp add: s GetDB_def)
    show "GetSubject_fault (store wn) (ClientKey ext client_id) = None"
      using rd1 by (simp add: s)
    show "subjects (store wn) (ClientKey ext client_id) = Some pem"
      using rec by (simp add: s)
  qed
qed

lemma demo_store_sound:
  "GetDB (store demo_world) c = None"
  "GetSubject_fault (store demo_world) p = None"
  "SetSubject_fault (store demo_world) p = None"
  by (simp_all add: demo_world_def demo_store_def GetDB_def)

lemma demo_bind_A: "SetPublicKey demo_ext 0 demo_world demo_config ''C.abcd1234'' keyA = (None, world_A)"
  unfolding world_A_def SetPublicKey_eq Let_def by (simp add: demo_store_sound)

lemma world_A_faults:
  "GetDB (store world_A) c = None"
  "SetSubject_fault (store world_A) p = None"
  unfolding SetPublicKey_success(2) [OF demo_bind_A]
  using demo_store_sound by (simp_all add: GetDB_def)

lemma world_A'_faults:
  "GetDB (store world_A') c = None"
  "SetSubject_fault (store world_A') p = None"
  using GetPublicKey_store [of demo_ext 1 world_A demo_config "''C.abcd1234''"] world_A_faults
  unfolding world_A'_def by (auto simp: GetDB_def)

lemma demo_bind_B: "SetPublicKey demo_ext 2 world_A' demo_config ''C.abcd1234'' keyB = (None, world_B)"
  unfolding world_B_def SetPublicKey_eq Let_def by (simp add: world_A'_faults)

lemma read_fault_bind:
  "SetPublicKey demo_ext 0 read_fault_world demo_config ''C.abcd1234'' keyA =
     (None, (with_lru read_fault_world
        (Cache_Remove (negative_lru (resolver read_fault_world)) ''C.abcd1234''))
        \<lparr>store := (store read_fault_world)\<lparr>subjects :=
           (subjects (store read_fault_world))(ClientKey demo_ext ''C.abcd1234'' \<mapsto>
              \<lparr>Pem = PublicKeyToPem demo_ext keyA,
               EnrollTime = word_of_int (0 div 1000000000)\<rparr>)\<rparr>\<rparr>)"
  unfolding SetPublicKey_eq Let_def
  by (simp add: read_fault_world_def demo_world_def demo_store_def GetDB_def)

lemma strict_bind:
  "SetPublicKey strict_ext 0 demo_world demo_config ''C.abcd1234'' keyB =
     (None, (with_lru demo_world
        (Cache_Remove (negative_lru (resolver demo_world)) ''C.abcd1234''))
        \<lparr>store := (store demo_world)\<lparr>subjects :=
           (subjects (store demo_world))(ClientKey strict_ext ''C.abcd1234'' \<mapsto>
              \<lparr>Pem = PublicKeyToPem strict_ext keyB,
               EnrollTime = word_of_int (0 div 1000000000)\<rparr>)\<rparr>\<rparr>)"
  unfolding SetPublicKey_eq Let_def
  by (simp add: demo_store_sound)

lemma demo_parse_A: "ParseX509CSRFromPemStr demo_ext ''csr-A'' = Inr csr_A"
  by (simp add: demo_ext_def csr_A_def)

lemma csr_A_sel:
  "PublicKeyAlgorithm csr_A = RSA"
  "PublicKey csr_A = RSAKey keyA"
  "Subject_CommonName csr_A = ''C.abcd1234''"
  by (simp_all add: csr_A_def)

lemma demo_ClientID_A: "ClientIDFromPublicKey demo_ext keyA = ''C.abcd1234''"
  by (simp add: demo_ext_def)

lemma AddCertificateRequest_RSA:
  assumes "ParseX509CSRFromPemStr ext csr_pem = Inr csr"
    and "PublicKeyAlgorithm csr = RSA"
    and "PublicKey csr = RSAKey public_key"
  shows "AddCertificateRequest ext now w config_obj csr_pem =
     (if Subject_CommonName csr \<noteq> ClientIDFromPublicKey ext public_key
      then Some (('''', Some (Error ''Invalid CSR'')), w)
      else case SetPublicKey ext now w config_obj
                  (ClientIdFromConfigObj ext (Subject_CommonName csr) config_obj) public_key of
             (Some err, w') \<Rightarrow> Some (('''', Some err), w')
           | (None, w') \<Rightarrow>
               Some ((ClientIdFromConfigObj ext (Subject_CommonName csr) config_obj, None), w'))"
  using assms
  by (simp add: AddCertificateRequest_def Let_def split: prod.splits option.splits)

lemma full_disk_faults:
  "GetDB (store full_disk_world) c = None"
  "SetSubject_fault (store full_disk_world) p = Some (Error ''no space left on device'')"
  "GetDB (store shadowed_full_disk_world) c = None"
  "SetSubject_fault (store shadowed_full_disk_world) p = Some (Error ''no space left on device'')"
  by (simp_all add: shadowed_full_disk_world_def full_disk_world_def demo_world_def
      demo_store_def GetDB_def)

lemma demo_cid: "ClientIdFromConfigObj demo_ext s demo_config = s"
  by (simp add: demo_ext_def demo_config_def)

lemma full_disk_bind:
  "SetPublicKey demo_ext now full_disk_world demo_config ''C.abcd1234'' keyA
     = (Some (Error ''no space left on device''), DeleteSubject full_disk_world ''C.abcd1234'')"
  unfolding SetPublicKey_eq Let_def by (simp add: full_disk_faults DeleteSubject_def)

lemma shadowed_full_disk_bind:
  "SetPublicKey demo_ext now shadowed_full_disk_world demo_config ''C.abcd1234'' keyA
     = (Some (Error ''no space left on device''),
        DeleteSubject shadowed_full_disk_world ''C.abcd1234'')"
  unfolding SetPublicKey_eq Let_def by (simp add: full_disk_faults DeleteSubject_def)

lemma NewServerPublicKeyResolver_cases:
  "NewServerPublicKeyResolver config_obj =
     (case Defaults config_obj of
        None \<Rightarrow> (\<lparr>negative_lru = \<lparr>items = Map.empty, ttl = 10000000000, skipTTLExtension = True\<rparr>\<rparr>, None)
      | Some d \<Rightarrow>
          if sint (UnauthenticatedLruTimeoutSec d) < 0 then (\<lparr>negative_lru = NewCache\<rparr>, None)
          else if 0 < sint (UnauthenticatedLruTimeoutSec d)
            then (\<lparr>negative_lru = \<lparr>items = Map.empty,
                     ttl = sint (UnauthenticatedLruTimeoutSec d * Second),
                     skipTTLExtension = True\<rparr>\<rparr>, None)
          else (\<lparr>negative_lru = \<lparr>items = Map.empty, ttl = 10000000000,
                     skipTTLExtension = True\<rparr>\<rparr>, None))"
  by (simp add: NewServerPublicKeyResolver_def Let_def NewCache_def SetTTL_def
      SkipTTLExtensionOnHit_def sint_ten_seconds split: option.splits)

text \<open>
  Beyond the bound: 9223372037 seconds wrap around to a negative duration.
\<close>

lemma NewServerPublicKeyResolver_overflow:
  "ttl (negative_lru (fst (NewServerPublicKeyResolver huge_config))) = - 9223372036709551616"
  by (simp add: NewServerPublicKeyResolver_cases huge_config_def Second_def)

lemma negative_world_resolver:
  "resolver negative_world = \<lparr>negative_lru = NewCache\<rparr>"
  by (simp add: negative_world_def NewServerPublicKeyResolver_cases negative_config_def)

lemma negative_world_1_eq:
  "GetPublicKey demo_ext 0 negative_world negative_config ''C.unknown''
     = ((None, False), negative_world_1)"
  "negative_lru (resolver negative_world_1) = Cache_Set NewCache ''C.unknown'' 0"
  "reads (store negative_world_1) = 1"
proof -
  have miss: "fst (Cache_Get (negative_lru (resolver negative_world)) ''C.unknown'' 0) \<noteq> None"
    by (simp add: negative_world_resolver NewCache_def Cache_Get_def)
  have db: "GetDB (store negative_world) negative_config = None"
    by (simp add: negative_world_def demo_store_def GetDB_def)
  have rd: "fst (GetSubject (store negative_world) negative_config
      (ClientKey demo_ext ''C.unknown'')) = Inl ErrNotExist"
    by (simp add: negative_world_def demo_store_def GetSubject_def)
  have r: "GetPublicKey demo_ext 0 negative_world negative_config ''C.unknown'' =
      ((None, False),
       with_lru (negative_world\<lparr>store := (store negative_world)
            \<lparr>reads := Suc (reads (store negative_world))\<rparr>\<rparr>)
         (Cache_Set (negative_lru (resolver negative_world)) ''C.unknown'' 0))"
    unfolding GetPublicKey_miss [OF miss] db rd by (simp add: Let_def)
  then show "GetPublicKey demo_ext 0 negative_world negative_config ''C.unknown''
     = ((None, False), negative_world_1)"
    by (simp add: negative_world_1_def)
  from r show "negative_lru (resolver negative_world_1) = Cache_Set NewCache ''C.unknown'' 0"
    by (simp add: negative_world_1_def negative_world_resolver)
  from r show "reads (store negative_world_1) = 1"
    by (simp add: negative_world_1_def negative_world_def demo_store_def)
qed

section \<open>Resolving\<close>

text \<open>
  Claim C4. When \<^verbatim>\<open>GetPublicKey\<close> misses the negative cache, obtains the datastore and
  then either the record read fails or the stored PEM does not decode, it returns
  \<open>(nil, false)\<close> and leaves in the negative cache an entry for that identifier inserted
  with the cache's TTL: the entry answers lookups up to \<open>now + ttl\<close> and, for a positive
  TTL, none after. The result of \<^verbatim>\<open>GetPublicKey\<close> is always either \<open>(nil, false)\<close> or
  \<open>(key, true)\<close>: it has no error component, so a store failure reaches the caller as
  "not found".
\<close>

theorem GetPublicKey_failure_cached:
  "(fst (Cache_Get (negative_lru (resolver w)) client_id now) \<noteq> None \<and>
    GetDB (store w) config_obj = None \<and>
    ((\<exists>err. fst (GetSubject (store w) config_obj (ClientKey ext client_id)) = Inl err) \<or>
     (\<exists>pem err. fst (GetSubject (store w) config_obj (ClientKey ext client_id)) = Inr pem \<and>
        PemToPublicKey ext (Pem pem) = Inl err))
    \<longrightarrow>
    (let c = negative_lru (resolver w);
         r = GetPublicKey ext now w config_obj client_id;
         c' = negative_lru (resolver (snd r))
     in fst r = (None, False) \<and>
        c' = Cache_Set c client_id now \<and>
        items c' client_id =
          Some \<lparr>item_ttl = ttl c, expireAt = (if 0 < ttl c then now + ttl c else 0)\<rparr> \<and>
        (\<forall>t. t \<le> now + ttl c \<longrightarrow> fst (Cache_Get c' client_id t) = None) \<and>
        (\<forall>t. 0 < ttl c \<and> now + ttl c < t \<longrightarrow> fst (Cache_Get c' client_id t) = Some ErrNotFound)))
   \<and> (fst (GetPublicKey ext now w config_obj client_id) = (None, False) \<or>
       (\<exists>key. fst (GetPublicKey ext now w config_obj client_id) = (Some key, True)))"
proof (intro conjI impI)
  show "fst (GetPublicKey ext now w config_obj client_id) = (None, False) \<or>
       (\<exists>key. fst (GetPublicKey ext now w config_obj client_id) = (Some key, True))"
    by (rule GetPublicKey_result_shape)
next
  assume a: "fst (Cache_Get (negative_lru (resolver w)) client_id now) \<noteq> None \<and>
    GetDB (store w) config_obj = None \<and>
    ((\<exists>err. fst (GetSubject (store w) config_obj (ClientKey ext client_id)) = Inl err) \<or>
     (\<exists>pem err. fst (GetSubject (store w) config_obj (ClientKey ext client_id)) = Inr pem \<and>
        PemToPublicKey ext (Pem pem) = Inl err))"
  define c where "c = negative_lru (resolver w)"
  define ds where "ds = (store w)\<lparr>reads := Suc (reads (store w))\<rparr>"
  from a have miss: "fst (Cache_Get (negative_lru (resolver w)) client_id now) \<noteq> None"
    and db: "GetDB (store w) config_obj = None" by simp_all
  from a have r: "GetPublicKey ext now w config_obj client_id =
      ((None, False), with_lru (w\<lparr>store := ds\<rparr>) (Cache_Set c client_id now))"
    unfolding GetPublicKey_miss [OF miss] db c_def ds_def by (auto simp: Let_def)
  have live: "\<And>t. t \<le> now + ttl c \<Longrightarrow> fst (Cache_Get (Cache_Set c client_id now) client_id t) = None"
    by (rule Cache_Get_Set_live) simp
  have dead: "\<And>t. 0 < ttl c \<and> now + ttl c < t \<Longrightarrow>
      fst (Cache_Get (Cache_Set c client_id now) client_id t) = Some ErrNotFound"
    by (simp add: Cache_Get_Set_expired)
  have it: "items (Cache_Set c client_id now) client_id =
      Some \<lparr>item_ttl = ttl c, expireAt = (if 0 < ttl c then now + ttl c else 0)\<rparr>"
    by (simp add: Cache_Set_def touch_def)
  show "let c = negative_lru (resolver w);
         r = GetPublicKey ext now w config_obj client_id;
         c' = negative_lru (resolver (snd r))
     in fst r = (None, False) \<and>
        c' = Cache_Set c client_id now \<and>
        items c' client_id =
          Some \<lparr>item_ttl = ttl c, expireAt = (if 0 < ttl c then now + ttl c else 0)\<rparr> \<and>
        (\<forall>t. t \<le> now + ttl c \<longrightarrow> fst (Cache_Get c' client_id t) = None) \<and>
        (\<forall>t. 0 < ttl c \<and> now + ttl c < t \<longrightarrow> fst (Cache_Get c' client_id t) = Some ErrNotFound)"
    unfolding Let_def r c_def [symmetric] using live dead it by simp
qed

theorem GetPublicKey_failure_cached_witness:
  "fst (Cache_Get (negative_lru (resolver demo_world)) ''C.unknown'' 0) \<noteq> None \<and>
   GetDB (store demo_world) demo_config = None \<and>
   fst (GetSubject (store demo_world) demo_config (ClientKey demo_ext ''C.unknown''))
     = Inl ErrNotExist \<and>
   fst (GetPublicKey demo_ext 0 demo_world demo_config ''C.unknown'') = (None, False) \<and>
   items (negative_lru (resolver (snd (GetPublicKey demo_ext 0 demo_world demo_config
            ''C.unknown'')))) ''C.unknown''
     = Some \<lparr>item_ttl = 10000000000, expireAt = 10000000000\<rparr>"
proof -
  have h1: "fst (Cache_Get (negative_lru (resolver demo_world)) ''C.unknown'' 0) \<noteq> None"
    by (simp add: demo_defs Cache_Get_def)
  have h2: "GetDB (store demo_world) demo_config = None"
    by (simp add: demo_defs GetDB_def)
  have h3: "fst (GetSubject (store demo_world) demo_config (ClientKey demo_ext ''C.unknown''))
     = Inl ErrNotExist"
    by (simp add: demo_defs GetSubject_def)
  have t: "ttl (negative_lru (resolver demo_world)) = 10000000000"
    by (simp add: demo_defs)
  from h1 h2 h3
    GetPublicKey_failure_cached [where w = demo_world and client_id = "''C.unknown''"
      and now = 0 and config_obj = demo_config and ext = demo_ext]
  have "fst (GetPublicKey demo_ext 0 demo_world demo_config ''C.unknown'') = (None, False) \<and>
    items (negative_lru (resolver (snd (GetPublicKey demo_ext 0 demo_world demo_config
            ''C.unknown'')))) ''C.unknown''
     = Some \<lparr>item_ttl = ttl (negative_lru (resolver demo_world)),
          expireAt = (if 0 < ttl (negative_lru (resolver demo_world))
                      then 0 + ttl (negative_lru (resolver demo_world)) else 0)\<rparr>"
    unfolding Let_def by blast
  with h1 h2 h3 show ?thesis
    by (simp add: t)
qed

text \<open>
  Claim C5. When the negative cache holds a live entry for the identifier,
  \<^verbatim>\<open>GetPublicKey\<close> returns \<open>(nil, false)\<close> and the datastore, its read counter included,
  is as before. In particular, after a first \<^verbatim>\<open>GetPublicKey\<close> for an identifier with no
  record (one record read), a second one no later than the TTL after the first returns
  \<open>(nil, false)\<close> again and the read counter still stands at one read.
\<close>

theorem GetPublicKey_negative_hit:
  "(fst (Cache_Get (negative_lru (resolver w)) client_id now) = None \<longrightarrow>
      fst (GetPublicKey ext now w config_obj client_id) = (None, False) \<and>
      store (snd (GetPublicKey ext now w config_obj client_id)) = store w)
   \<and>
   (fst (Cache_Get (negative_lru (resolver w)) client_id t0) \<noteq> None \<and>
    GetDB (store w) config_obj = None \<and>
    subjects (store w) (ClientKey ext client_id) = None \<and>
    t1 \<le> t0 + ttl (negative_lru (resolver w)) \<longrightarrow>
      (let r1 = GetPublicKey ext t0 w config_obj client_id;
           r2 = GetPublicKey ext t1 (snd r1) config_obj client_id
       in fst r1 = (None, False) \<and> reads (store (snd r1)) = Suc (reads (store w)) \<and>
          fst r2 = (None, False) \<and> reads (store (snd r2)) = Suc (reads (store w)) \<and>
          store (snd r2) = store (snd r1)))"
proof (intro conjI impI)
  assume "fst (Cache_Get (negative_lru (resolver w)) client_id now) = None"
  then show "fst (GetPublicKey ext now w config_obj client_id) = (None, False)"
    and "store (snd (GetPublicKey ext now w config_obj client_id)) = store w"
    by (rule GetPublicKey_hit)+
next
  assume a: "fst (Cache_Get (negative_lru (resolver w)) client_id t0) \<noteq> None \<and>
    GetDB (store w) config_obj = None \<and>
    subjects (store w) (ClientKey ext client_id) = None \<and>
    t1 \<le> t0 + ttl (negative_lru (resolver w))"
  define c where "c = negative_lru (resolver w)"
  define ds where "ds = (store w)\<lparr>reads := Suc (reads (store w))\<rparr>"
  define w1 where "w1 = with_lru (w\<lparr>store := ds\<rparr>) (Cache_Set c client_id t0)"
  from a have miss: "fst (Cache_Get (negative_lru (resolver w)) client_id t0) \<noteq> None"
    and db: "GetDB (store w) config_obj = None" by simp_all
  from a have "\<exists>err. fst (GetSubject (store w) config_obj (ClientKey ext client_id)) = Inl err"
    by (simp add: GetSubject_def Let_def split: option.splits)
  then have r1: "GetPublicKey ext t0 w config_obj client_id = ((None, False), w1)"
    unfolding GetPublicKey_miss [OF miss] db c_def ds_def w1_def by (auto simp: Let_def)
  from a have "t1 \<le> t0 + ttl c" by (simp add: c_def)
  then have "fst (Cache_Get (Cache_Set c client_id t0) client_id t1) = None"
    by (intro Cache_Get_Set_live) simp
  then have hit: "fst (Cache_Get (negative_lru (resolver w1)) client_id t1) = None"
    by (simp add: w1_def)
  have s1: "store w1 = ds" by (simp add: w1_def)
  show "let r1 = GetPublicKey ext t0 w config_obj client_id;
           r2 = GetPublicKey ext t1 (snd r1) config_obj client_id
       in fst r1 = (None, False) \<and> reads (store (snd r1)) = Suc (reads (store w)) \<and>
          fst r2 = (None, False) \<and> reads (store (snd r2)) = Suc (reads (store w)) \<and>
          store (snd r2) = store (snd r1)"
    unfolding Let_def r1
    using GetPublicKey_hit [OF hit, of ext config_obj] s1 by (simp add: ds_def)
qed

theorem GetPublicKey_negative_hit_witness:
  "fst (Cache_Get (negative_lru (resolver demo_world)) ''C.unknown'' 0) \<noteq> None \<and>
   GetDB (store demo_world) demo_config = None \<and>
   subjects (store demo_world) (ClientKey demo_ext ''C.unknown'') = None \<and>
   (9000000000::int) \<le> 0 + ttl (negative_lru (resolver demo_world)) \<and>
   fst (GetPublicKey demo_ext 0 demo_world demo_config ''C.unknown'') = (None, False) \<and>
   reads (store (snd (GetPublicKey demo_ext 0 demo_world demo_config ''C.unknown''))) = 1 \<and>
   fst (GetPublicKey demo_ext 9000000000
          (snd (GetPublicKey demo_ext 0 demo_world demo_config ''C.unknown''))
          demo_config ''C.unknown'') = (None, False) \<and>
   reads (store (snd (GetPublicKey demo_ext 9000000000
          (snd (GetPublicKey demo_ext 0 demo_world demo_config ''C.unknown''))
          demo_config ''C.unknown''))) = 1"
proof -
  have h1: "fst (Cache_Get (negative_lru (resolver demo_world)) ''C.unknown'' 0) \<noteq> None"
    by (simp add: demo_defs Cache_Get_def)
  have h2: "GetDB (store demo_world) demo_config = None"
    by (simp add: demo_defs GetDB_def)
  have h3: "subjects (store demo_world) (ClientKey demo_ext ''C.unknown'') = None"
    by (simp add: demo_defs)
  have h4: "(9000000000::int) \<le> 0 + ttl (negative_lru (resolver demo_world))"
    by (simp add: demo_defs)
  have r: "reads (store demo_world) = 0"
    by (simp add: demo_defs)
  from h1 h2 h3 h4
    GetPublicKey_negative_hit [where w = demo_world and client_id = "''C.unknown''"
      and ext = demo_ext and config_obj = demo_config and ?t0.0 = 0 and ?t1.0 = 9000000000]
  have "fst (GetPublicKey demo_ext 0 demo_world demo_config ''C.unknown'') = (None, False) \<and>
   reads (store (snd (GetPublicKey demo_ext 0 demo_world demo_config ''C.unknown'')))
     = Suc (reads (store demo_world)) \<and>
   fst (GetPublicKey demo_ext 9000000000
          (snd (GetPublicKey demo_ext 0 demo_world demo_config ''C.unknown''))
          demo_config ''C.unknown'') = (None, False) \<and>
   reads (store (snd (GetPublicKey demo_ext 9000000000
          (snd (GetPublicKey demo_ext 0 demo_world demo_config ''C.unknown''))
          demo_config ''C.unknown''))) = Suc (reads (store demo_world))"
    unfolding Let_def by blast
  with h1 h2 h3 h4 show ?thesis
    by (simp add: r)
qed

section \<open>Failure to obtain the datastore\<close>

text \<open>
  Claim C9. When \<^verbatim>\<open>GetPublicKey\<close> misses the negative cache and \<^verbatim>\<open>datastore.GetDB\<close>
  fails, it returns \<open>(nil, false)\<close> and the world is exactly as before: no negative
  entry is inserted and no record is read. So at any later time, once the datastore can
  be obtained again, \<^verbatim>\<open>GetPublicKey\<close> for the same identifier still misses the cache
  and reads the record from the store.
\<close>

theorem GetPublicKey_GetDB_failure_not_cached:
  "(fst (Cache_Get (negative_lru (resolver w)) client_id now) \<noteq> None \<and>
    GetDB (store w) config_obj = Some err \<longrightarrow>
      GetPublicKey ext now w config_obj client_id = ((None, False), w))
   \<and>
   (fst (Cache_Get (negative_lru (resolver w)) client_id now) \<noteq> None \<and>
    GetDB (store w) config_obj = Some err \<and> now \<le> t \<longrightarrow>
      (let w1 = snd (GetPublicKey ext now w config_obj client_id);
           w2 = w1\<lparr>store := (store w1)\<lparr>GetDB_fault := (\<lambda>_. None)\<rparr>\<rparr>
       in fst (Cache_Get (negative_lru (resolver w1)) client_id t) \<noteq> None \<and>
          reads (store (snd (GetPublicKey ext t w2 config_obj client_id)))
            = Suc (reads (store w))))"
proof (intro conjI impI)
  assume a: "fst (Cache_Get (negative_lru (resolver w)) client_id now) \<noteq> None \<and>
    GetDB (store w) config_obj = Some err"
  then have miss: "fst (Cache_Get (negative_lru (resolver w)) client_id now) \<noteq> None"
    by simp
  from a show "GetPublicKey ext now w config_obj client_id = ((None, False), w)"
    unfolding GetPublicKey_miss [OF miss] by simp
next
  assume a: "fst (Cache_Get (negative_lru (resolver w)) client_id now) \<noteq> None \<and>
    GetDB (store w) config_obj = Some err \<and> now \<le> t"
  then have miss: "fst (Cache_Get (negative_lru (resolver w)) client_id now) \<noteq> None"
    by simp
  from a have r: "GetPublicKey ext now w config_obj client_id = ((None, False), w)"
    unfolding GetPublicKey_miss [OF miss] by simp
  define w2 where "w2 = w\<lparr>store := (store w)\<lparr>GetDB_fault := (\<lambda>_. None)\<rparr>\<rparr>"
  from a have "now \<le> t" by simp
  with miss have miss_t: "fst (Cache_Get (negative_lru (resolver w)) client_id t) \<noteq> None"
    by (rule Cache_Get_miss_mono)
  then have miss2: "fst (Cache_Get (negative_lru (resolver w2)) client_id t) \<noteq> None"
    by (simp add: w2_def)
  have db2: "GetDB (store w2) config_obj = None"
    by (simp add: w2_def GetDB_def)
  have "reads (store (snd (GetPublicKey ext t w2 config_obj client_id))) = Suc (reads (store w2))"
    unfolding GetPublicKey_miss [OF miss2] db2
    by (simp add: Let_def split: sum.splits)
  then have "reads (store (snd (GetPublicKey ext t w2 config_obj client_id))) = Suc (reads (store w))"
    by (simp add: w2_def)
  with miss_t show "let w1 = snd (GetPublicKey ext now w config_obj client_id);
           w2 = w1\<lparr>store := (store w1)\<lparr>GetDB_fault := (\<lambda>_. None)\<rparr>\<rparr>
       in fst (Cache_Get (negative_lru (resolver w1)) client_id t) \<noteq> None \<and>
          reads (store (snd (GetPublicKey ext t w2 config_obj client_id)))
            = Suc (reads (store w))"
    unfolding Let_def r by (simp add: w2_def)
qed

theorem GetPublicKey_GetDB_failure_not_cached_witness:
  "fst (Cache_Get (negative_lru (resolver outage_world)) ''C.abcd1234'' 0) \<noteq> None \<and>
   GetDB (store outage_world) demo_config = Some (Error ''no datastore configured'') \<and>
   (0::int) \<le> 1 \<and>
   GetPublicKey demo_ext 0 outage_world demo_config ''C.abcd1234''
     = ((None, False), outage_world) \<and>
   reads (store (snd (GetPublicKey demo_ext 1
       (outage_world\<lparr>store := (store outage_world)\<lparr>GetDB_fault := (\<lambda>_. None)\<rparr>\<rparr>)
       demo_config ''C.abcd1234''))) = 1"
proof -
  have h1: "fst (Cache_Get (negative_lru (resolver outage_world)) ''C.abcd1234'' 0) \<noteq> None"
    by (simp add: outage_world_def demo_defs Cache_Get_def)
  have h2: "GetDB (store outage_world) demo_config = Some (Error ''no datastore configured'')"
    by (simp add: outage_world_def demo_defs GetDB_def)
  have h3: "(0::int) \<le> 1" by simp
  have r: "reads (store outage_world) = 0"
    by (simp add: outage_world_def demo_defs)
  note T = GetPublicKey_GetDB_failure_not_cached [where w = outage_world
      and client_id = "''C.abcd1234''" and now = 0 and config_obj = demo_config
      and err = "Error ''no datastore configured''" and ext = demo_ext and t = 1]
  from T h1 h2 have a: "GetPublicKey demo_ext 0 outage_world demo_config ''C.abcd1234''
     = ((None, False), outage_world)"
    by blast
  from T h1 h2 h3 have "let w1 = snd (GetPublicKey demo_ext 0 outage_world demo_config ''C.abcd1234'');
           w2 = w1\<lparr>store := (store w1)\<lparr>GetDB_fault := (\<lambda>_. None)\<rparr>\<rparr>
       in fst (Cache_Get (negative_lru (resolver w1)) ''C.abcd1234'' 1) \<noteq> None \<and>
          reads (store (snd (GetPublicKey demo_ext 1 w2 demo_config ''C.abcd1234'')))
            = Suc (reads (store outage_world))"
    by blast
  then have b: "reads (store (snd (GetPublicKey demo_ext 1
       (outage_world\<lparr>store := (store outage_world)\<lparr>GetDB_fault := (\<lambda>_. None)\<rparr>\<rparr>)
       demo_config ''C.abcd1234''))) = 1"
    unfolding Let_def a by (simp add: r)
  from h1 h2 a b show ?thesis by simp
qed

section \<open>Eviction and the deletion listener\<close>

text \<open>
  Claim C7. \<^verbatim>\<open>DeleteSubject\<close> leaves the datastore as it was and removes from the
  negative cache the entry of the given identifier and nothing else. Doing it twice is
  doing it once, and with no entry for the identifier the world is unchanged; the
  function has no error result. After \<^verbatim>\<open>DeleteSubject\<close>, a \<^verbatim>\<open>GetPublicKey\<close> for the
  identifier at any time, inside the TTL of the removed entry too, reads the store
  (when the datastore can be obtained).
\<close>

theorem DeleteSubject_frame:
  "store (DeleteSubject w client_id) = store w \<and>
   items (negative_lru (resolver (DeleteSubject w client_id)))
     = (items (negative_lru (resolver w)))(client_id := None) \<and>
   ttl (negative_lru (resolver (DeleteSubject w client_id))) = ttl (negative_lru (resolver w)) \<and>
   skipTTLExtension (negative_lru (resolver (DeleteSubject w client_id)))
     = skipTTLExtension (negative_lru (resolver w)) \<and>
   DeleteSubject (DeleteSubject w client_id) client_id = DeleteSubject w client_id \<and>
   (items (negative_lru (resolver w)) client_id = None \<longrightarrow> DeleteSubject w client_id = w) \<and>
   (GetDB (store w) config_obj = None \<longrightarrow>
      reads (store (snd (GetPublicKey ext now (DeleteSubject w client_id) config_obj client_id)))
        = Suc (reads (store w)))"
proof (intro conjI impI)
  show "store (DeleteSubject w client_id) = store w"
    by (simp add: DeleteSubject_def)
  show "items (negative_lru (resolver (DeleteSubject w client_id)))
     = (items (negative_lru (resolver w)))(client_id := None)"
    by (simp add: DeleteSubject_def Cache_Remove_def)
  show "ttl (negative_lru (resolver (DeleteSubject w client_id))) = ttl (negative_lru (resolver w))"
    by (simp add: DeleteSubject_def Cache_Remove_def)
  show "skipTTLExtension (negative_lru (resolver (DeleteSubject w client_id)))
     = skipTTLExtension (negative_lru (resolver w))"
    by (simp add: DeleteSubject_def Cache_Remove_def)
  show "DeleteSubject (DeleteSubject w client_id) client_id = DeleteSubject w client_id"
    by (simp add: DeleteSubject_def Cache_Remove_def with_lru_def)
next
  assume "items (negative_lru (resolver w)) client_id = None"
  then have "(items (negative_lru (resolver w)))(client_id := None) = items (negative_lru (resolver w))"
    by (simp add: fun_upd_idem)
  then show "DeleteSubject w client_id = w"
    by (simp add: DeleteSubject_def Cache_Remove_def with_lru_def)
next
  assume db: "GetDB (store w) config_obj = None"
  define w1 where "w1 = DeleteSubject w client_id"
  have miss: "fst (Cache_Get (negative_lru (resolver w1)) client_id now) \<noteq> None"
    by (simp add: w1_def DeleteSubject_def Cache_Get_Remove)
  have db1: "GetDB (store w1) config_obj = None"
    using db by (simp add: w1_def DeleteSubject_def)
  have "reads (store (snd (GetPublicKey ext now w1 config_obj client_id))) = Suc (reads (store w1))"
    unfolding GetPublicKey_miss [OF miss] db1
    by (simp add: Let_def split: sum.splits)
  then show "reads (store (snd (GetPublicKey ext now (DeleteSubject w client_id) config_obj client_id)))
        = Suc (reads (store w))"
    by (simp add: w1_def DeleteSubject_def)
qed

theorem DeleteSubject_frame_witness:
  "GetDB (store shadowed_world) demo_config = None \<and>
   fst (Cache_Get (negative_lru (resolver shadowed_world)) ''C.abcd1234'' 5) = None \<and>
   reads (store (snd (GetPublicKey demo_ext 5 (DeleteSubject shadowed_world ''C.abcd1234'')
      demo_config ''C.abcd1234''))) = 1 \<and>
   items (negative_lru (resolver demo_world)) ''C.abcd1234'' = None \<and>
   DeleteSubject demo_world ''C.abcd1234'' = demo_world"
proof -
  have h1: "GetDB (store shadowed_world) demo_config = None"
    by (simp add: shadowed_world_def demo_defs GetDB_def)
  have h2: "fst (Cache_Get (negative_lru (resolver shadowed_world)) ''C.abcd1234'' 5) = None"
    by (simp add: shadowed_world_def demo_defs Cache_Get_def Cache_Set_def touch_def expired_def)
  have h3: "items (negative_lru (resolver demo_world)) ''C.abcd1234'' = None"
    by (simp add: demo_defs)
  have r: "reads (store shadowed_world) = 0"
    by (simp add: shadowed_world_def demo_defs)
  note T1 = DeleteSubject_frame [where w = shadowed_world and client_id = "''C.abcd1234''"
      and config_obj = demo_config and ext = demo_ext and now = 5]
  note T2 = DeleteSubject_frame [where w = demo_world and client_id = "''C.abcd1234''"
      and config_obj = demo_config and ext = demo_ext and now = 5]
  from T1 h1 have a: "reads (store (snd (GetPublicKey demo_ext 5
      (DeleteSubject shadowed_world ''C.abcd1234'') demo_config ''C.abcd1234'')))
        = Suc (reads (store shadowed_world))"
    by blast
  from T2 h3 have b: "DeleteSubject demo_world ''C.abcd1234'' = demo_world"
    by blast
  from h1 h2 h3 a b show ?thesis by (simp add: r)
qed

text \<open>
  Claim C8. The callback registered on the client-deletion queue returns a nil error for
  every row. When \<^verbatim>\<open>GetString\<close> finds the \<^verbatim>\<open>ClientId\<close> field it calls
  \<^verbatim>\<open>DeleteSubject\<close> for that identifier; when the field is missing the world is left as
  it was.
\<close>

theorem ClientDelete_callback_total:
  "fst (ClientDelete_callback w config_obj row) = None \<and>
   (snd (GetString row ''ClientId'') \<longrightarrow>
      snd (ClientDelete_callback w config_obj row)
        = DeleteSubject w (fst (GetString row ''ClientId''))) \<and>
   (\<not> snd (GetString row ''ClientId'') \<longrightarrow> snd (ClientDelete_callback w config_obj row) = w) \<and>
   (map_of row ''ClientId'' = Some (VString client_id) \<longrightarrow>
      snd (ClientDelete_callback w config_obj row) = DeleteSubject w client_id) \<and>
   (map_of row ''ClientId'' = None \<longrightarrow> snd (ClientDelete_callback w config_obj row) = w)"
  by (simp add: ClientDelete_callback_def GetString_def split: prod.splits)

theorem ClientDelete_callback_total_witness:
  "map_of [(''ClientId'', VString ''C.abcd1234'')] ''ClientId'' = Some (VString ''C.abcd1234'') \<and>
   ClientDelete_callback shadowed_world demo_config [(''ClientId'', VString ''C.abcd1234'')]
     = (None, DeleteSubject shadowed_world ''C.abcd1234'') \<and>
   map_of [(''Hostname'', VString ''host1'')] ''ClientId'' = None \<and>
   ClientDelete_callback shadowed_world demo_config [(''Hostname'', VString ''host1'')]
     = (None, shadowed_world)"
proof -
  have h1: "map_of [(''ClientId'', VString ''C.abcd1234'')] ''ClientId''
      = Some (VString ''C.abcd1234'')"
    by simp
  have h2: "map_of [(''Hostname'', VString ''host1'')] ''ClientId'' = None"
    by simp
  note T1 = ClientDelete_callback_total [where w = shadowed_world and config_obj = demo_config
      and row = "[(''ClientId'', VString ''C.abcd1234'')]" and client_id = "''C.abcd1234''"]
  note T2 = ClientDelete_callback_total [where w = shadowed_world and config_obj = demo_config
      and row = "[(''Hostname'', VString ''host1'')]" and client_id = "''C.abcd1234''"]
  from T1 h1 have a: "fst (ClientDelete_callback shadowed_world demo_config
        [(''ClientId'', VString ''C.abcd1234'')]) = None \<and>
      snd (ClientDelete_callback shadowed_world demo_config
        [(''ClientId'', VString ''C.abcd1234'')]) = DeleteSubject shadowed_world ''C.abcd1234''"
    by blast
  from T2 h2 have b: "fst (ClientDelete_callback shadowed_world demo_config
        [(''Hostname'', VString ''host1'')]) = None \<and>
      snd (ClientDelete_callback shadowed_world demo_config
        [(''Hostname'', VString ''host1'')]) = shadowed_world"
    by blast
  from h1 h2 a b show ?thesis
    by (simp add: prod_eq_iff)
qed

section \<open>Binding\<close>

text \<open>
  Claim C6, as the code has it. Provided the PEM codec decodes what it encoded for the
  key and the store does not fail the read of the record: after a successful
  \<^verbatim>\<open>SetPublicKey\<close> of \<open>key\<close> for an identifier, \<^verbatim>\<open>GetPublicKey\<close> for it returns
  \<open>(key, true)\<close>, after any number of earlier resolves \<open>ts\<close> of the identifier too: each
  of them leaves the resolver, with its negative cache, as the bind left it and changes
  nothing in the store but the read counter. Binding the identifier again, to \<open>key'\<close>,
  makes \<^verbatim>\<open>GetPublicKey\<close> return \<open>(key', true)\<close> in the same way: the last bind wins.
\<close>

theorem SetPublicKey_GetPublicKey_last_bind_wins:
  "(PemToPublicKey ext (PublicKeyToPem ext key) = Inr key \<and>
    GetSubject_fault (store w) (ClientKey ext client_id) = None \<and>
    SetPublicKey ext t0 w config_obj client_id key = (None, w1) \<longrightarrow>
      (let wn = foldl (\<lambda>w t. snd (GetPublicKey ext t w config_obj client_id)) w1 ts
       in GetPublicKey ext t wn config_obj client_id =
            ((Some key, True), wn\<lparr>store := (store wn)\<lparr>reads := Suc (reads (store wn))\<rparr>\<rparr>) \<and>
          resolver wn = resolver w1 \<and>
          store wn = (store w1)\<lparr>reads := reads (store w1) + length ts\<rparr>))
   \<and>
   (PemToPublicKey ext (PublicKeyToPem ext key) = Inr key \<and>
    PemToPublicKey ext (PublicKeyToPem ext key') = Inr key' \<and>
    GetSubject_fault (store w) (ClientKey ext client_id) = None \<and>
    SetPublicKey ext t0 w config_obj client_id key = (None, w1) \<and>
    SetPublicKey ext t2
       (foldl (\<lambda>w t. snd (GetPublicKey ext t w config_obj client_id)) w1 ts)
       config_obj client_id key' = (None, w2) \<longrightarrow>
      (let wn = foldl (\<lambda>w t. snd (GetPublicKey ext t w config_obj client_id)) w2 ts'
       in GetPublicKey ext t wn config_obj client_id =
            ((Some key', True), wn\<lparr>store := (store wn)\<lparr>reads := Suc (reads (store wn))\<rparr>\<rparr>) \<and>
          resolver wn = resolver w2 \<and>
          store wn = (store w2)\<lparr>reads := reads (store w2) + length ts'\<rparr>))"
proof (intro conjI impI)
  assume a: "PemToPublicKey ext (PublicKeyToPem ext key) = Inr key \<and>
    GetSubject_fault (store w) (ClientKey ext client_id) = None \<and>
    SetPublicKey ext t0 w config_obj client_id key = (None, w1)"
  then have rt: "PemToPublicKey ext (PublicKeyToPem ext key) = Inr key"
    and rd: "GetSubject_fault (store w) (ClientKey ext client_id) = None"
    and bind: "SetPublicKey ext t0 w config_obj client_id key = (None, w1)"
    by blast+
  show "let wn = foldl (\<lambda>w t. snd (GetPublicKey ext t w config_obj client_id)) w1 ts
       in GetPublicKey ext t wn config_obj client_id =
            ((Some key, True), wn\<lparr>store := (store wn)\<lparr>reads := Suc (reads (store wn))\<rparr>\<rparr>) \<and>
          resolver wn = resolver w1 \<and>
          store wn = (store w1)\<lparr>reads := reads (store w1) + length ts\<rparr>"
    unfolding Let_def
    using bind_then_resolves(1-3) [OF rt rd bind] by blast
next
  assume a: "PemToPublicKey ext (PublicKeyToPem ext key) = Inr key \<and>
    PemToPublicKey ext (PublicKeyToPem ext key') = Inr key' \<and>
    GetSubject_fault (store w) (ClientKey ext client_id) = None \<and>
    SetPublicKey ext t0 w config_obj client_id key = (None, w1) \<and>
    SetPublicKey ext t2
       (foldl (\<lambda>w t. snd (GetPublicKey ext t w config_obj client_id)) w1 ts)
       config_obj client_id key' = (None, w2)"
  then have rt: "PemToPublicKey ext (PublicKeyToPem ext key) = Inr key"
    and rt': "PemToPublicKey ext (PublicKeyToPem ext key') = Inr key'"
    and rd: "GetSubject_fault (store w) (ClientKey ext client_id) = None"
    and bind: "SetPublicKey ext t0 w config_obj client_id key = (None, w1)"
    and bind': "SetPublicKey ext t2
       (foldl (\<lambda>w t. snd (GetPublicKey ext t w config_obj client_id)) w1 ts)
       config_obj client_id key' = (None, w2)"
    by blast+
  have rd': "GetSubject_fault
      (store (foldl (\<lambda>w t. snd (GetPublicKey ext t w config_obj client_id)) w1 ts))
      (ClientKey ext client_id) = None"
    using rd by (simp add: bind_then_resolves(4) [OF rt rd bind])
  show "let wn = foldl (\<lambda>w t. snd (GetPublicKey ext t w config_obj client_id)) w2 ts'
       in GetPublicKey ext t wn config_obj client_id =
            ((Some key', True), wn\<lparr>store := (store wn)\<lparr>reads := Suc (reads (store wn))\<rparr>\<rparr>) \<and>
          resolver wn = resolver w2 \<and>
          store wn = (store w2)\<lparr>reads := reads (store w2) + length ts'\<rparr>"
    unfolding Let_def
    using bind_then_resolves(1-3) [OF rt' rd' bind'] by blast
qed

theorem SetPublicKey_GetPublicKey_last_bind_wins_witness:
  "PemToPublicKey demo_ext (PublicKeyToPem demo_ext keyA) = Inr keyA \<and>
   PemToPublicKey demo_ext (PublicKeyToPem demo_ext keyB) = Inr keyB \<and>
   GetSubject_fault (store demo_world) (ClientKey demo_ext ''C.abcd1234'') = None \<and>
   SetPublicKey demo_ext 0 demo_world demo_config ''C.abcd1234'' keyA = (None, world_A) \<and>
   fst (GetPublicKey demo_ext 1 world_A demo_config ''C.abcd1234'') = (Some keyA, True) \<and>
   resolver world_A' = resolver world_A \<and>
   fst (GetPublicKey demo_ext 2 world_A' demo_config ''C.abcd1234'') = (Some keyA, True) \<and>
   SetPublicKey demo_ext 2 world_A' demo_config ''C.abcd1234'' keyB = (None, world_B) \<and>
   fst (GetPublicKey demo_ext 3 world_B demo_config ''C.abcd1234'') = (Some keyB, True)"
proof -
  have h1: "PemToPublicKey demo_ext (PublicKeyToPem demo_ext keyA) = Inr keyA"
    by (simp add: demo_ext_def)
  have h2: "PemToPublicKey demo_ext (PublicKeyToPem demo_ext keyB) = Inr keyB"
    by (simp add: demo_ext_def keyA_def keyB_def)
  have h3: "GetSubject_fault (store demo_world) (ClientKey demo_ext ''C.abcd1234'') = None"
    by (rule demo_store_sound)
  note h4 = demo_bind_A
  have e0: "foldl (\<lambda>w t. snd (GetPublicKey demo_ext t w demo_config ''C.abcd1234'')) world_A []
      = world_A"
    by simp
  have e1: "foldl (\<lambda>w t. snd (GetPublicKey demo_ext t w demo_config ''C.abcd1234'')) world_A [1]
      = world_A'"
    by (simp add: world_A'_def)
  have e2: "foldl (\<lambda>w t. snd (GetPublicKey demo_ext t w demo_config ''C.abcd1234'')) world_B []
      = world_B"
    by simp
  have h5: "SetPublicKey demo_ext 2
      (foldl (\<lambda>w t. snd (GetPublicKey demo_ext t w demo_config ''C.abcd1234'')) world_A [1])
      demo_config ''C.abcd1234'' keyB = (None, world_B)"
    unfolding e1 by (rule demo_bind_B)
  from h1 h3 h4
    SetPublicKey_GetPublicKey_last_bind_wins [where ext = demo_ext and key = keyA
      and w = demo_world and client_id = "''C.abcd1234''" and config_obj = demo_config
      and ?t0.0 = 0 and ?w1.0 = world_A and ts = "[]" and t = 1]
  have "GetPublicKey demo_ext 1 world_A demo_config ''C.abcd1234'' =
      ((Some keyA, True), world_A\<lparr>store := (store world_A)
          \<lparr>reads := Suc (reads (store world_A))\<rparr>\<rparr>)"
    unfolding Let_def e0 by blast
  then have r1: "fst (GetPublicKey demo_ext 1 world_A demo_config ''C.abcd1234'')
      = (Some keyA, True)"
    by simp
  from h1 h3 h4
    SetPublicKey_GetPublicKey_last_bind_wins [where ext = demo_ext and key = keyA
      and w = demo_world and client_id = "''C.abcd1234''" and config_obj = demo_config
      and ?t0.0 = 0 and ?w1.0 = world_A and ts = "[1]" and t = 2]
  have "GetPublicKey demo_ext 2 world_A' demo_config ''C.abcd1234'' =
      ((Some keyA, True), world_A'\<lparr>store := (store world_A')
          \<lparr>reads := Suc (reads (store world_A'))\<rparr>\<rparr>) \<and>
      resolver world_A' = resolver world_A"
    unfolding Let_def e1 by blast
  then have r2: "fst (GetPublicKey demo_ext 2 world_A' demo_config ''C.abcd1234'')
      = (Some keyA, True)"
    and r3: "resolver world_A' = resolver world_A"
    by simp_all
  from h1 h2 h3 h4 h5
    SetPublicKey_GetPublicKey_last_bind_wins [where ext = demo_ext and key = keyA
      and key' = keyB and w = demo_world and client_id = "''C.abcd1234''"
      and config_obj = demo_config and ?t0.0 = 0 and ?w1.0 = world_A and ts = "[1]"
      and ?t2.0 = 2 and ?w2.0 = world_B and ts' = "[]" and t = 3]
  have "GetPublicKey demo_ext 3 world_B demo_config ''C.abcd1234'' =
      ((Some keyB, True), world_B\<lparr>store := (store world_B)
          \<lparr>reads := Suc (reads (store world_B))\<rparr>\<rparr>)"
    unfolding Let_def e2 by blast
  then have r4: "fst (GetPublicKey demo_ext 3 world_B demo_config ''C.abcd1234'')
      = (Some keyB, True)"
    by simp
  from h1 h2 h3 h4 r1 r2 r3 r4 demo_bind_B show ?thesis by blast
qed

text \<open>
  Without the two provisos a bound key need not resolve. A store that accepts the write
  and then fails the read makes \<^verbatim>\<open>GetPublicKey\<close> return \<open>(nil, false)\<close> right after a
  successful \<^verbatim>\<open>SetPublicKey\<close>, with a codec that is sound for the key; and so does a
  codec that refuses to decode a key it encoded, on a healthy store.
\<close>

theorem SetPublicKey_then_GetPublicKey_not_found:
  "PemToPublicKey demo_ext (PublicKeyToPem demo_ext keyA) = Inr keyA \<and>
   fst (SetPublicKey demo_ext 0 read_fault_world demo_config ''C.abcd1234'' keyA) = None \<and>
   fst (GetPublicKey demo_ext 1
          (snd (SetPublicKey demo_ext 0 read_fault_world demo_config ''C.abcd1234'' keyA))
          demo_config ''C.abcd1234'') = (None, False) \<and>
   fst (SetPublicKey strict_ext 0 demo_world demo_config ''C.abcd1234'' keyB) = None \<and>
   fst (GetPublicKey strict_ext 1
          (snd (SetPublicKey strict_ext 0 demo_world demo_config ''C.abcd1234'' keyB))
          demo_config ''C.abcd1234'') = (None, False)"
proof -
  have a: "PemToPublicKey demo_ext (PublicKeyToPem demo_ext keyA) = Inr keyA"
    by (simp add: demo_ext_def)
  have b: "fst (GetPublicKey demo_ext 1
          (snd (SetPublicKey demo_ext 0 read_fault_world demo_config ''C.abcd1234'' keyA))
          demo_config ''C.abcd1234'') = (None, False)"
    unfolding read_fault_bind
    by (simp add: GetPublicKey_def Cache_Get_Remove with_lru_def GetDB_def GetSubject_def
        Let_def read_fault_world_def demo_world_def demo_store_def)
  have c: "fst (GetPublicKey strict_ext 1
          (snd (SetPublicKey strict_ext 0 demo_world demo_config ''C.abcd1234'' keyB))
          demo_config ''C.abcd1234'') = (None, False)"
    unfolding strict_bind
    by (simp add: GetPublicKey_def Cache_Get_Remove with_lru_def GetDB_def GetSubject_def
        Let_def demo_world_def demo_store_def strict_ext_def demo_ext_def keyA_def keyB_def)
  from a b c show ?thesis
    by (simp add: read_fault_bind strict_bind)
qed

section \<open>Enrolment\<close>

text \<open>
  Claim C10. When \<^verbatim>\<open>AddCertificateRequest\<close> succeeds, the identifier it returns is
  \<^verbatim>\<open>ClientIdFromConfigObj\<close> of the request's common name and the configuration, the
  very identifier passed to \<^verbatim>\<open>SetPublicKey\<close>, and the resulting store holds under that
  identifier's key the record with the PEM of the request's public key.
\<close>

theorem AddCertificateRequest_returns_storage_key:
  "AddCertificateRequest ext now w config_obj csr_pem = Some ((client_id, None), w') \<longrightarrow>
     (\<exists>csr public_key.
        ParseX509CSRFromPemStr ext csr_pem = Inr csr \<and>
        PublicKey csr = RSAKey public_key \<and>
        client_id = ClientIdFromConfigObj ext (Subject_CommonName csr) config_obj \<and>
        SetPublicKey ext now w config_obj client_id public_key = (None, w') \<and>
        subjects (store w') (ClientKey ext client_id)
          = Some \<lparr>Pem = PublicKeyToPem ext public_key,
                  EnrollTime = word_of_int (now div 1000000000)\<rparr>)"
proof
  assume a: "AddCertificateRequest ext now w config_obj csr_pem = Some ((client_id, None), w')"
  then obtain csr where p: "ParseX509CSRFromPemStr ext csr_pem = Inr csr"
    by (cases "ParseX509CSRFromPemStr ext csr_pem") (simp_all add: AddCertificateRequest_def)
  from a p have alg: "PublicKeyAlgorithm csr = RSA"
    by (simp add: AddCertificateRequest_def split: if_splits)
  from a p alg obtain public_key where k: "PublicKey csr = RSAKey public_key"
    by (cases "PublicKey csr") (simp_all add: AddCertificateRequest_def)
  from a p alg k have cn: "Subject_CommonName csr = ClientIDFromPublicKey ext public_key"
    by (simp add: AddCertificateRequest_def Let_def split: if_splits)
  define cid where "cid = ClientIdFromConfigObj ext (Subject_CommonName csr) config_obj"
  from a p alg k cn have "client_id = cid \<and>
      SetPublicKey ext now w config_obj cid public_key = (None, w')"
    by (cases "SetPublicKey ext now w config_obj cid public_key")
       (auto simp: AddCertificateRequest_def Let_def cid_def split: option.splits)
  then have id: "client_id = cid"
    and b: "SetPublicKey ext now w config_obj client_id public_key = (None, w')"
    by simp_all
  have "subjects (store w') (ClientKey ext client_id)
          = Some \<lparr>Pem = PublicKeyToPem ext public_key,
                  EnrollTime = word_of_int (now div 1000000000)\<rparr>"
    by (simp add: SetPublicKey_success(2) [OF b])
  with p k id b show "\<exists>csr public_key.
        ParseX509CSRFromPemStr ext csr_pem = Inr csr \<and>
        PublicKey csr = RSAKey public_key \<and>
        client_id = ClientIdFromConfigObj ext (Subject_CommonName csr) config_obj \<and>
        SetPublicKey ext now w config_obj client_id public_key = (None, w') \<and>
        subjects (store w') (ClientKey ext client_id)
          = Some \<lparr>Pem = PublicKeyToPem ext public_key,
                  EnrollTime = word_of_int (now div 1000000000)\<rparr>"
    unfolding cid_def by blast
qed

theorem AddCertificateRequest_returns_storage_key_witness:
  "AddCertificateRequest demo_ext 0 demo_world demo_org_config ''csr-A''
     = Some ((''C.abcd1234-O123'', None),
         snd (SetPublicKey demo_ext 0 demo_world demo_org_config ''C.abcd1234-O123'' keyA)) \<and>
   subjects (store (snd (SetPublicKey demo_ext 0 demo_world demo_org_config
       ''C.abcd1234-O123'' keyA))) (ClientKey demo_ext ''C.abcd1234-O123'')
     = Some \<lparr>Pem = PublicKeyToPem demo_ext keyA, EnrollTime = 0\<rparr>"
proof -
  define w' where
    "w' = snd (SetPublicKey demo_ext 0 demo_world demo_org_config ''C.abcd1234-O123'' keyA)"
  have cid: "ClientIdFromConfigObj demo_ext ''C.abcd1234'' demo_org_config = ''C.abcd1234-O123''"
    by (simp add: demo_ext_def demo_org_config_def)
  have b: "SetPublicKey demo_ext 0 demo_world demo_org_config ''C.abcd1234-O123'' keyA = (None, w')"
    unfolding w'_def SetPublicKey_eq Let_def by (simp add: demo_store_sound)
  have h: "AddCertificateRequest demo_ext 0 demo_world demo_org_config ''csr-A''
     = Some ((''C.abcd1234-O123'', None), w')"
    unfolding AddCertificateRequest_RSA [OF demo_parse_A csr_A_sel(1) csr_A_sel(2)]
    by (simp add: csr_A_sel demo_ClientID_A cid b)
  from h AddCertificateRequest_returns_storage_key [where ext = demo_ext and now = 0
      and w = demo_world and config_obj = demo_org_config and csr_pem = "''csr-A''"
      and client_id = "''C.abcd1234-O123''" and w' = w']
  obtain csr public_key where
    p: "ParseX509CSRFromPemStr demo_ext ''csr-A'' = Inr csr"
    and k: "PublicKey csr = RSAKey public_key"
    and s: "subjects (store w') (ClientKey demo_ext ''C.abcd1234-O123'')
          = Some \<lparr>Pem = PublicKeyToPem demo_ext public_key,
                  EnrollTime = word_of_int (0 div 1000000000)\<rparr>"
    by blast
  from p have "csr = csr_A" by (simp add: demo_parse_A)
  with k have "public_key = keyA" by (simp add: csr_A_sel)
  with s have "subjects (store w') (ClientKey demo_ext ''C.abcd1234-O123'')
     = Some \<lparr>Pem = PublicKeyToPem demo_ext keyA, EnrollTime = 0\<rparr>"
    by simp
  with h show ?thesis by (simp add: w'_def)
qed

text \<open>
  Claim C1, as the code has it. \<^verbatim>\<open>AddCertificateRequest\<close> fails with the parser's error
  when the request does not parse, with \<open>Not RSA algorithm\<close> when the key algorithm is not
  RSA whatever the common name, with \<open>Invalid CSR\<close> when the common name is not
  \<^verbatim>\<open>ClientIDFromPublicKey\<close> of the presented key, and with the error of
  \<^verbatim>\<open>SetPublicKey\<close> when binding fails. It succeeds, returning the org-qualified
  identifier, if and only if the request parses, the algorithm is RSA, the common name
  matches the key, and \<^verbatim>\<open>SetPublicKey\<close> succeeds. Every failure returns the empty
  identifier.
\<close>

theorem AddCertificateRequest_outcome:
  "(ParseX509CSRFromPemStr ext csr_pem = Inl err \<longrightarrow>
      AddCertificateRequest ext now w config_obj csr_pem = Some (('''', Some err), w))
   \<and>
   (ParseX509CSRFromPemStr ext csr_pem = Inr csr \<and> PublicKeyAlgorithm csr \<noteq> RSA \<longrightarrow>
      AddCertificateRequest ext now w config_obj csr_pem
        = Some (('''', Some (Error ''Not RSA algorithm'')), w))
   \<and>
   (ParseX509CSRFromPemStr ext csr_pem = Inr csr \<and> PublicKeyAlgorithm csr = RSA \<and>
    PublicKey csr = RSAKey public_key \<and>
    Subject_CommonName csr \<noteq> ClientIDFromPublicKey ext public_key \<longrightarrow>
      AddCertificateRequest ext now w config_obj csr_pem
        = Some (('''', Some (Error ''Invalid CSR'')), w))
   \<and>
   (ParseX509CSRFromPemStr ext csr_pem = Inr csr \<and> PublicKeyAlgorithm csr = RSA \<and>
    PublicKey csr = RSAKey public_key \<and>
    Subject_CommonName csr = ClientIDFromPublicKey ext public_key \<and>
    SetPublicKey ext now w config_obj
      (ClientIdFromConfigObj ext (Subject_CommonName csr) config_obj) public_key
        = (Some err, w') \<longrightarrow>
      AddCertificateRequest ext now w config_obj csr_pem = Some (('''', Some err), w'))
   \<and>
   (ParseX509CSRFromPemStr ext csr_pem = Inr csr \<and> PublicKeyAlgorithm csr = RSA \<and>
    PublicKey csr = RSAKey public_key \<and>
    Subject_CommonName csr = ClientIDFromPublicKey ext public_key \<and>
    SetPublicKey ext now w config_obj
      (ClientIdFromConfigObj ext (Subject_CommonName csr) config_obj) public_key
        = (None, w') \<longrightarrow>
      AddCertificateRequest ext now w config_obj csr_pem
        = Some ((ClientIdFromConfigObj ext (Subject_CommonName csr) config_obj, None), w'))
   \<and>
   ((\<exists>client_id w'. AddCertificateRequest ext now w config_obj csr_pem
        = Some ((client_id, None), w'))
    \<longleftrightarrow>
    (\<exists>csr public_key.
       ParseX509CSRFromPemStr ext csr_pem = Inr csr \<and> PublicKeyAlgorithm csr = RSA \<and>
       PublicKey csr = RSAKey public_key \<and>
       Subject_CommonName csr = ClientIDFromPublicKey ext public_key \<and>
       fst (SetPublicKey ext now w config_obj
         (ClientIdFromConfigObj ext (Subject_CommonName csr) config_obj) public_key) = None))
   \<and>
   (AddCertificateRequest ext now w config_obj csr_pem = Some ((client_id, Some err), w')
      \<longrightarrow> client_id = '''')"
proof (intro conjI impI)
  assume "ParseX509CSRFromPemStr ext csr_pem = Inl err"
  then show "AddCertificateRequest ext now w config_obj csr_pem = Some (('''', Some err), w)"
    by (simp add: AddCertificateRequest_def)
next
  assume "ParseX509CSRFromPemStr ext csr_pem = Inr csr \<and> PublicKeyAlgorithm csr \<noteq> RSA"
  then show "AddCertificateRequest ext now w config_obj csr_pem
        = Some (('''', Some (Error ''Not RSA algorithm'')), w)"
    by (simp add: AddCertificateRequest_def)
next
  assume "ParseX509CSRFromPemStr ext csr_pem = Inr csr \<and> PublicKeyAlgorithm csr = RSA \<and>
    PublicKey csr = RSAKey public_key \<and>
    Subject_CommonName csr \<noteq> ClientIDFromPublicKey ext public_key"
  then show "AddCertificateRequest ext now w config_obj csr_pem
        = Some (('''', Some (Error ''Invalid CSR'')), w)"
    by (simp add: AddCertificateRequest_RSA)
next
  assume "ParseX509CSRFromPemStr ext csr_pem = Inr csr \<and> PublicKeyAlgorithm csr = RSA \<and>
    PublicKey csr = RSAKey public_key \<and>
    Subject_CommonName csr = ClientIDFromPublicKey ext public_key \<and>
    SetPublicKey ext now w config_obj
      (ClientIdFromConfigObj ext (Subject_CommonName csr) config_obj) public_key
        = (Some err, w')"
  then have p: "ParseX509CSRFromPemStr ext csr_pem = Inr csr"
    and alg: "PublicKeyAlgorithm csr = RSA" and k: "PublicKey csr = RSAKey public_key"
    and cn: "Subject_CommonName csr = ClientIDFromPublicKey ext public_key"
    and b: "SetPublicKey ext now w config_obj
      (ClientIdFromConfigObj ext (Subject_CommonName csr) config_obj) public_key
        = (Some err, w')"
    by blast+
  show "AddCertificateRequest ext now w config_obj csr_pem = Some (('''', Some err), w')"
    unfolding AddCertificateRequest_RSA [OF p alg k] b using cn by simp
next
  assume "ParseX509CSRFromPemStr ext csr_pem = Inr csr \<and> PublicKeyAlgorithm csr = RSA \<and>
    PublicKey csr = RSAKey public_key \<and>
    Subject_CommonName csr = ClientIDFromPublicKey ext public_key \<and>
    SetPublicKey ext now w config_obj
      (ClientIdFromConfigObj ext (Subject_CommonName csr) config_obj) public_key
        = (None, w')"
  then have p: "ParseX509CSRFromPemStr ext csr_pem = Inr csr"
    and alg: "PublicKeyAlgorithm csr = RSA" and k: "PublicKey csr = RSAKey public_key"
    and cn: "Subject_CommonName csr = ClientIDFromPublicKey ext public_key"
    and b: "SetPublicKey ext now w config_obj
      (ClientIdFromConfigObj ext (Subject_CommonName csr) config_obj) public_key
        = (None, w')"
    by blast+
  show "AddCertificateRequest ext now w config_obj csr_pem
        = Some ((ClientIdFromConfigObj ext (Subject_CommonName csr) config_obj, None), w')"
    unfolding AddCertificateRequest_RSA [OF p alg k] b using cn by simp
next
  show "(\<exists>client_id w'. AddCertificateRequest ext now w config_obj csr_pem
        = Some ((client_id, None), w'))
    \<longleftrightarrow>
    (\<exists>csr public_key.
       ParseX509CSRFromPemStr ext csr_pem = Inr csr \<and> PublicKeyAlgorithm csr = RSA \<and>
       PublicKey csr = RSAKey public_key \<and>
       Subject_CommonName csr = ClientIDFromPublicKey ext public_key \<and>
       fst (SetPublicKey ext now w config_obj
         (ClientIdFromConfigObj ext (Subject_CommonName csr) config_obj) public_key) = None)"
    (is "?L \<longleftrightarrow> ?R")
  proof
    assume ?L
    then obtain client_id w' where
      a: "AddCertificateRequest ext now w config_obj csr_pem = Some ((client_id, None), w')"
      by blast
    then obtain csr where p: "ParseX509CSRFromPemStr ext csr_pem = Inr csr"
      by (cases "ParseX509CSRFromPemStr ext csr_pem") (simp_all add: AddCertificateRequest_def)
    from a p have alg: "PublicKeyAlgorithm csr = RSA"
      by (simp add: AddCertificateRequest_def split: if_splits)
    from a p alg obtain public_key where k: "PublicKey csr = RSAKey public_key"
      by (cases "PublicKey csr") (simp_all add: AddCertificateRequest_def)
    from a have cn: "Subject_CommonName csr = ClientIDFromPublicKey ext public_key"
      unfolding AddCertificateRequest_RSA [OF p alg k] by (simp split: if_splits)
    from a cn have "fst (SetPublicKey ext now w config_obj
         (ClientIdFromConfigObj ext (Subject_CommonName csr) config_obj) public_key) = None"
      unfolding AddCertificateRequest_RSA [OF p alg k]
      by (cases "SetPublicKey ext now w config_obj
         (ClientIdFromConfigObj ext (Subject_CommonName csr) config_obj) public_key")
         (auto split: option.splits)
    with p alg k cn show ?R by blast
  next
    assume ?R
    then obtain csr public_key where
      p: "ParseX509CSRFromPemStr ext csr_pem = Inr csr" and alg: "PublicKeyAlgorithm csr = RSA"
      and k: "PublicKey csr = RSAKey public_key"
      and cn: "Subject_CommonName csr = ClientIDFromPublicKey ext public_key"
      and b: "fst (SetPublicKey ext now w config_obj
         (ClientIdFromConfigObj ext (Subject_CommonName csr) config_obj) public_key) = None"
      by blast
    from b cn show ?L
      unfolding AddCertificateRequest_RSA [OF p alg k]
      by (cases "SetPublicKey ext now w config_obj
         (ClientIdFromConfigObj ext (Subject_CommonName csr) config_obj) public_key")
         auto
  qed
next
  assume a: "AddCertificateRequest ext now w config_obj csr_pem = Some ((client_id, Some err), w')"
  show "client_id = ''''"
  proof (cases "ParseX509CSRFromPemStr ext csr_pem")
    case (Inl e)
    with a show ?thesis by (simp add: AddCertificateRequest_def)
  next
    case (Inr csr)
    show ?thesis
    proof (cases "PublicKeyAlgorithm csr = RSA")
      case False
      with a Inr show ?thesis by (simp add: AddCertificateRequest_def)
    next
      case True
      show ?thesis
      proof (cases "PublicKey csr")
        case (OtherKey b)
        with a Inr True show ?thesis by (simp add: AddCertificateRequest_def)
      next
        case (RSAKey public_key)
        from a show ?thesis
          unfolding AddCertificateRequest_RSA [OF Inr True RSAKey]
          by (cases "SetPublicKey ext now w config_obj
                (ClientIdFromConfigObj ext (Subject_CommonName csr) config_obj) public_key")
             (auto split: if_splits option.splits)
      qed
    qed
  qed
qed

text \<open>
  The three conditions on the request alone do not decide success: a request that
  parses, has an RSA key and the matching common name is rejected when the store cannot
  write.
\<close>

theorem AddCertificateRequest_valid_csr_rejected:
  "ParseX509CSRFromPemStr demo_ext ''csr-A'' = Inr csr_A \<and>
   PublicKeyAlgorithm csr_A = RSA \<and>
   PublicKey csr_A = RSAKey keyA \<and>
   Subject_CommonName csr_A = ClientIDFromPublicKey demo_ext keyA \<and>
   AddCertificateRequest demo_ext 0 full_disk_world demo_config ''csr-A''
     = Some (('''', Some (Error ''no space left on device'')),
             DeleteSubject full_disk_world ''C.abcd1234'')"
  unfolding AddCertificateRequest_RSA [OF demo_parse_A csr_A_sel(1) csr_A_sel(2)]
  by (simp add: demo_parse_A csr_A_sel demo_ClientID_A demo_cid full_disk_bind)

theorem AddCertificateRequest_outcome_witness:
  "ParseX509CSRFromPemStr demo_ext ''garbage'' = Inl (Error ''failed to parse PEM block'') \<and>
   AddCertificateRequest demo_ext 0 demo_world demo_config ''garbage''
     = Some (('''', Some (Error ''failed to parse PEM block'')), demo_world) \<and>
   AddCertificateRequest demo_ext 0 demo_world demo_config ''csr-ec''
     = Some (('''', Some (Error ''Not RSA algorithm'')), demo_world) \<and>
   AddCertificateRequest demo_ext 0 demo_world demo_config ''csr-forged''
     = Some (('''', Some (Error ''Invalid CSR'')), demo_world) \<and>
   AddCertificateRequest demo_ext 0 full_disk_world demo_config ''csr-A''
     = Some (('''', Some (Error ''no space left on device'')),
             DeleteSubject full_disk_world ''C.abcd1234'') \<and>
   AddCertificateRequest demo_ext 0 demo_world demo_config ''csr-A''
     = Some ((''C.abcd1234'', None), world_A)"
proof -
  have g: "ParseX509CSRFromPemStr demo_ext ''garbage'' = Inl (Error ''failed to parse PEM block'')"
    by (simp add: demo_ext_def)
  have ec: "ParseX509CSRFromPemStr demo_ext ''csr-ec''
      = Inr \<lparr>PublicKeyAlgorithm = ECDSA, PublicKey = OtherKey ''P-256'',
             Subject_CommonName = ''C.abcd1234''\<rparr> \<and>
      PublicKeyAlgorithm \<lparr>PublicKeyAlgorithm = ECDSA, PublicKey = OtherKey ''P-256'',
             Subject_CommonName = ''C.abcd1234''\<rparr> \<noteq> RSA"
    by (simp add: demo_ext_def)
  have fg: "ParseX509CSRFromPemStr demo_ext ''csr-forged''
      = Inr \<lparr>PublicKeyAlgorithm = RSA, PublicKey = RSAKey keyB,
                                  Subject_CommonName = ''C.abcd1234''\<rparr> \<and>
      PublicKeyAlgorithm \<lparr>PublicKeyAlgorithm = RSA, PublicKey = RSAKey keyB,
                                  Subject_CommonName = ''C.abcd1234''\<rparr> = RSA \<and>
      PublicKey \<lparr>PublicKeyAlgorithm = RSA, PublicKey = RSAKey keyB,
                                  Subject_CommonName = ''C.abcd1234''\<rparr> = RSAKey keyB \<and>
      Subject_CommonName \<lparr>PublicKeyAlgorithm = RSA, PublicKey = RSAKey keyB,
                                  Subject_CommonName = ''C.abcd1234''\<rparr>
        \<noteq> ClientIDFromPublicKey demo_ext keyB"
    by (simp add: demo_ext_def keyA_def keyB_def)
  have okA: "ParseX509CSRFromPemStr demo_ext ''csr-A'' = Inr csr_A \<and>
      PublicKeyAlgorithm csr_A = RSA \<and> PublicKey csr_A = RSAKey keyA \<and>
      Subject_CommonName csr_A = ClientIDFromPublicKey demo_ext keyA"
    by (simp add: demo_parse_A csr_A_sel demo_ClientID_A)
  have bindA: "SetPublicKey demo_ext 0 demo_world demo_config
      (ClientIdFromConfigObj demo_ext (Subject_CommonName csr_A) demo_config) keyA
        = (None, world_A)"
    by (simp add: demo_cid csr_A_sel demo_bind_A)
  have bindF: "SetPublicKey demo_ext 0 full_disk_world demo_config
      (ClientIdFromConfigObj demo_ext (Subject_CommonName csr_A) demo_config) keyA
        = (Some (Error ''no space left on device''),
           DeleteSubject full_disk_world ''C.abcd1234'')"
    by (simp add: demo_cid csr_A_sel full_disk_bind)
  from g AddCertificateRequest_outcome [where ext = demo_ext and csr_pem = "''garbage''"
      and err = "Error ''failed to parse PEM block''" and now = 0 and w = demo_world
      and config_obj = demo_config]
  have r1: "AddCertificateRequest demo_ext 0 demo_world demo_config ''garbage''
     = Some (('''', Some (Error ''failed to parse PEM block'')), demo_world)"
    by blast
  from ec AddCertificateRequest_outcome [where ext = demo_ext and csr_pem = "''csr-ec''"
      and csr = "\<lparr>PublicKeyAlgorithm = ECDSA, PublicKey = OtherKey ''P-256'',
             Subject_CommonName = ''C.abcd1234''\<rparr>" and now = 0 and w = demo_world
      and config_obj = demo_config]
  have r2: "AddCertificateRequest demo_ext 0 demo_world demo_config ''csr-ec''
     = Some (('''', Some (Error ''Not RSA algorithm'')), demo_world)"
    by blast
  from fg AddCertificateRequest_outcome [where ext = demo_ext and csr_pem = "''csr-forged''"
      and csr = "\<lparr>PublicKeyAlgorithm = RSA, PublicKey = RSAKey keyB,
             Subject_CommonName = ''C.abcd1234''\<rparr>" and public_key = keyB
      and now = 0 and w = demo_world and config_obj = demo_config]
  have r3: "AddCertificateRequest demo_ext 0 demo_world demo_config ''csr-forged''
     = Some (('''', Some (Error ''Invalid CSR'')), demo_world)"
    by blast
  from okA bindF AddCertificateRequest_outcome [where ext = demo_ext and csr_pem = "''csr-A''"
      and csr = csr_A and public_key = keyA and now = 0 and w = full_disk_world
      and config_obj = demo_config and err = "Error ''no space left on device''"
      and w' = "DeleteSubject full_disk_world ''C.abcd1234''"]
  have r4: "AddCertificateRequest demo_ext 0 full_disk_world demo_config ''csr-A''
     = Some (('''', Some (Error ''no space left on device'')),
             DeleteSubject full_disk_world ''C.abcd1234'')"
    by blast
  from okA bindA AddCertificateRequest_outcome [where ext = demo_ext and csr_pem = "''csr-A''"
      and csr = csr_A and public_key = keyA and now = 0 and w = demo_world
      and config_obj = demo_config and w' = world_A]
  have "AddCertificateRequest demo_ext 0 demo_world demo_config ''csr-A''
     = Some ((ClientIdFromConfigObj demo_ext (Subject_CommonName csr_A) demo_config, None),
          world_A)"
    by blast
  then have r5: "AddCertificateRequest demo_ext 0 demo_world demo_config ''csr-A''
     = Some ((''C.abcd1234'', None), world_A)"
    by (simp add: demo_cid csr_A_sel)
  from g r1 r2 r3 r4 r5 show ?thesis by blast
qed

text \<open>
  Claim C3, as the code has it. When \<^verbatim>\<open>SetPublicKey\<close> fails (the datastore cannot be
  obtained, or the write fails) the error is the store's own and reaches the caller of
  \<^verbatim>\<open>AddCertificateRequest\<close> unchanged, the datastore is as before, and so are the
  negative-cache entries of all other identifiers; the entry of the identifier itself has
  been removed, since \<^verbatim>\<open>SetPublicKey\<close> removes it before it writes.
\<close>

theorem SetPublicKey_failure_effect:
  "(SetPublicKey ext now w config_obj client_id key = (Some err, w') \<longrightarrow>
      store w' = store w \<and>
      w' = DeleteSubject w client_id \<and>
      items (negative_lru (resolver w')) client_id = None \<and>
      (\<forall>other. other \<noteq> client_id \<longrightarrow>
         items (negative_lru (resolver w')) other = items (negative_lru (resolver w)) other))
   \<and>
   (GetDB (store w) config_obj = Some err \<longrightarrow>
      fst (SetPublicKey ext now w config_obj client_id key) = Some err)
   \<and>
   (GetDB (store w) config_obj = None \<and>
    SetSubject_fault (store w) (ClientKey ext client_id) = Some err \<longrightarrow>
      fst (SetPublicKey ext now w config_obj client_id key) = Some err)
   \<and>
   (ParseX509CSRFromPemStr ext csr_pem = Inr csr \<and> PublicKeyAlgorithm csr = RSA \<and>
    PublicKey csr = RSAKey key \<and>
    Subject_CommonName csr = ClientIDFromPublicKey ext key \<and>
    SetPublicKey ext now w config_obj
      (ClientIdFromConfigObj ext (Subject_CommonName csr) config_obj) key = (Some err, w')
    \<longrightarrow>
      AddCertificateRequest ext now w config_obj csr_pem = Some (('''', Some err), w') \<and>
      store w' = store w)"
proof (intro conjI impI)
  assume a: "SetPublicKey ext now w config_obj client_id key = (Some err, w')"
  note w' = SetPublicKey_failure [OF a]
  show "store w' = store w" by (simp add: w')
  show "w' = DeleteSubject w client_id" by (simp add: w' DeleteSubject_def)
  show "items (negative_lru (resolver w')) client_id = None"
    by (simp add: w' Cache_Remove_def)
  show "\<forall>other. other \<noteq> client_id \<longrightarrow>
         items (negative_lru (resolver w')) other = items (negative_lru (resolver w)) other"
    by (simp add: w' Cache_Remove_def)
next
  assume "GetDB (store w) config_obj = Some err"
  then show "fst (SetPublicKey ext now w config_obj client_id key) = Some err"
    unfolding SetPublicKey_eq Let_def by simp
next
  assume "GetDB (store w) config_obj = None \<and>
    SetSubject_fault (store w) (ClientKey ext client_id) = Some err"
  then show "fst (SetPublicKey ext now w config_obj client_id key) = Some err"
    unfolding SetPublicKey_eq Let_def by simp
next
  assume a: "ParseX509CSRFromPemStr ext csr_pem = Inr csr \<and> PublicKeyAlgorithm csr = RSA \<and>
    PublicKey csr = RSAKey key \<and>
    Subject_CommonName csr = ClientIDFromPublicKey ext key \<and>
    SetPublicKey ext now w config_obj
      (ClientIdFromConfigObj ext (Subject_CommonName csr) config_obj) key = (Some err, w')"
  then have p: "ParseX509CSRFromPemStr ext csr_pem = Inr csr"
    and alg: "PublicKeyAlgorithm csr = RSA" and k: "PublicKey csr = RSAKey key"
    and cn: "Subject_CommonName csr = ClientIDFromPublicKey ext key"
    and b: "SetPublicKey ext now w config_obj
      (ClientIdFromConfigObj ext (Subject_CommonName csr) config_obj) key = (Some err, w')"
    by blast+
  show "AddCertificateRequest ext now w config_obj csr_pem = Some (('''', Some err), w')"
    unfolding AddCertificateRequest_RSA [OF p alg k] b using cn by simp
  show "store w' = store w"
    by (simp add: SetPublicKey_failure [OF b])
qed

text \<open>
  A failed enrolment is not without effect: a live negative entry of the identifier is
  gone afterwards.
\<close>

theorem SetPublicKey_failure_drops_cache_entry:
  "fst (Cache_Get (negative_lru (resolver shadowed_full_disk_world)) ''C.abcd1234'' 5) = None \<and>
   AddCertificateRequest demo_ext 5 shadowed_full_disk_world demo_config ''csr-A''
     = Some (('''', Some (Error ''no space left on device'')),
             DeleteSubject shadowed_full_disk_world ''C.abcd1234'') \<and>
   fst (Cache_Get (negative_lru (resolver
          (DeleteSubject shadowed_full_disk_world ''C.abcd1234''))) ''C.abcd1234'' 5)
     = Some ErrNotFound \<and>
   DeleteSubject shadowed_full_disk_world ''C.abcd1234'' \<noteq> shadowed_full_disk_world"
proof -
  have a: "fst (Cache_Get (negative_lru (resolver shadowed_full_disk_world)) ''C.abcd1234'' 5)
      = None"
    by (simp add: shadowed_full_disk_world_def full_disk_world_def demo_defs
        Cache_Get_def Cache_Set_def touch_def expired_def)
  have b: "AddCertificateRequest demo_ext 5 shadowed_full_disk_world demo_config ''csr-A''
     = Some (('''', Some (Error ''no space left on device'')),
             DeleteSubject shadowed_full_disk_world ''C.abcd1234'')"
    unfolding AddCertificateRequest_RSA [OF demo_parse_A csr_A_sel(1) csr_A_sel(2)]
    by (simp add: csr_A_sel demo_ClientID_A demo_cid shadowed_full_disk_bind)
  have c: "fst (Cache_Get (negative_lru (resolver
          (DeleteSubject shadowed_full_disk_world ''C.abcd1234''))) ''C.abcd1234'' 5)
     = Some ErrNotFound"
    by (simp add: DeleteSubject_def Cache_Get_Remove)
  from a c have d: "DeleteSubject shadowed_full_disk_world ''C.abcd1234''
      \<noteq> shadowed_full_disk_world"
    by auto
  from a b c d show ?thesis by blast
qed

theorem SetPublicKey_failure_effect_witness:
  "SetPublicKey demo_ext 5 shadowed_full_disk_world demo_config ''C.abcd1234'' keyA
     = (Some (Error ''no space left on device''),
        DeleteSubject shadowed_full_disk_world ''C.abcd1234'') \<and>
   store (DeleteSubject shadowed_full_disk_world ''C.abcd1234'')
     = store shadowed_full_disk_world \<and>
   items (negative_lru (resolver (DeleteSubject shadowed_full_disk_world ''C.abcd1234'')))
     ''C.abcd1234'' = None"
proof -
  note h = shadowed_full_disk_bind [of 5]
  from h SetPublicKey_failure_effect [where ext = demo_ext and now = 5
      and w = shadowed_full_disk_world and config_obj = demo_config
      and client_id = "''C.abcd1234''" and key = keyA
      and err = "Error ''no space left on device''"
      and w' = "DeleteSubject shadowed_full_disk_world ''C.abcd1234''"]
  have "store (DeleteSubject shadowed_full_disk_world ''C.abcd1234'')
     = store shadowed_full_disk_world \<and>
   items (negative_lru (resolver (DeleteSubject shadowed_full_disk_world ''C.abcd1234'')))
     ''C.abcd1234'' = None"
    by blast
  with h show ?thesis by blast
qed

section \<open>Constructing the resolver\<close>

text \<open>
  Claim C2, as the code has it. \<^verbatim>\<open>NewServerPublicKeyResolver\<close> returns an empty cache and
  no error. With no \<^verbatim>\<open>Defaults\<close> section or a zero setting the TTL is ten seconds; with a
  positive setting of at most 9223372036 seconds (beyond which the multiplication by
  \<^verbatim>\<open>time.Second\<close> leaves the 64-bit range) it is that many seconds; in both cases
  extension on hit is off. With a negative setting the cache is returned as
  \<^verbatim>\<open>ttlcache.NewCache()\<close> made it, with no TTL set: it is still the cache
  \<^verbatim>\<open>GetPublicKey\<close> consults and fills, and an entry inserted into it answers lookups at
  every later time.
\<close>

theorem NewServerPublicKeyResolver_ttl:
  "snd (NewServerPublicKeyResolver config_obj) = None \<and>
   items (negative_lru (fst (NewServerPublicKeyResolver config_obj))) = Map.empty \<and>
   (Defaults config_obj = None \<longrightarrow>
      ttl (negative_lru (fst (NewServerPublicKeyResolver config_obj))) = 10 * 1000000000 \<and>
      skipTTLExtension (negative_lru (fst (NewServerPublicKeyResolver config_obj))))
   \<and>
   (Defaults config_obj = Some d \<and> UnauthenticatedLruTimeoutSec d = 0 \<longrightarrow>
      ttl (negative_lru (fst (NewServerPublicKeyResolver config_obj))) = 10 * 1000000000 \<and>
      skipTTLExtension (negative_lru (fst (NewServerPublicKeyResolver config_obj))))
   \<and>
   (Defaults config_obj = Some d \<and> 0 < sint (UnauthenticatedLruTimeoutSec d) \<and>
    sint (UnauthenticatedLruTimeoutSec d) \<le> 9223372036 \<longrightarrow>
      ttl (negative_lru (fst (NewServerPublicKeyResolver config_obj)))
        = sint (UnauthenticatedLruTimeoutSec d) * 1000000000 \<and>
      skipTTLExtension (negative_lru (fst (NewServerPublicKeyResolver config_obj))))
   \<and>
   (Defaults config_obj = Some d \<and> sint (UnauthenticatedLruTimeoutSec d) < 0 \<longrightarrow>
      fst (NewServerPublicKeyResolver config_obj) = \<lparr>negative_lru = NewCache\<rparr> \<and>
      ttl (negative_lru (fst (NewServerPublicKeyResolver config_obj))) = 0 \<and>
      (\<forall>key now t.
         fst (Cache_Get (Cache_Set (negative_lru (fst (NewServerPublicKeyResolver config_obj)))
                key now) key t) = None))"
proof (intro conjI impI)
  show "snd (NewServerPublicKeyResolver config_obj) = None"
    by (simp add: NewServerPublicKeyResolver_cases split: option.splits)
  show "items (negative_lru (fst (NewServerPublicKeyResolver config_obj))) = Map.empty"
    by (simp add: NewServerPublicKeyResolver_cases NewCache_def split: option.splits)
next
  assume a: "Defaults config_obj = None"
  then show "ttl (negative_lru (fst (NewServerPublicKeyResolver config_obj))) = 10 * 1000000000"
    and "skipTTLExtension (negative_lru (fst (NewServerPublicKeyResolver config_obj)))"
    by (simp_all add: NewServerPublicKeyResolver_cases)
next
  assume a: "Defaults config_obj = Some d \<and> UnauthenticatedLruTimeoutSec d = 0"
  then show "ttl (negative_lru (fst (NewServerPublicKeyResolver config_obj))) = 10 * 1000000000"
    and "skipTTLExtension (negative_lru (fst (NewServerPublicKeyResolver config_obj)))"
    by (simp_all add: NewServerPublicKeyResolver_cases)
next
  assume a: "Defaults config_obj = Some d \<and> 0 < sint (UnauthenticatedLruTimeoutSec d) \<and>
    sint (UnauthenticatedLruTimeoutSec d) \<le> 9223372036"
  then have "sint (UnauthenticatedLruTimeoutSec d * Second)
      = sint (UnauthenticatedLruTimeoutSec d) * 1000000000"
    by (intro sint_seconds) simp_all
  with a show "ttl (negative_lru (fst (NewServerPublicKeyResolver config_obj)))
        = sint (UnauthenticatedLruTimeoutSec d) * 1000000000"
    and "skipTTLExtension (negative_lru (fst (NewServerPublicKeyResolver config_obj)))"
    by (simp_all add: NewServerPublicKeyResolver_cases)
next
  assume a: "Defaults config_obj = Some d \<and> sint (UnauthenticatedLruTimeoutSec d) < 0"
  then show r: "fst (NewServerPublicKeyResolver config_obj) = \<lparr>negative_lru = NewCache\<rparr>"
    by (simp add: NewServerPublicKeyResolver_cases)
  show "ttl (negative_lru (fst (NewServerPublicKeyResolver config_obj))) = 0"
    by (simp add: r NewCache_def)
  show "\<forall>key now t.
         fst (Cache_Get (Cache_Set (negative_lru (fst (NewServerPublicKeyResolver config_obj)))
                key now) key t) = None"
    by (simp add: r Cache_Get_Set_live NewCache_def)
qed

theorem NewServerPublicKeyResolver_ttl_witness:
  "Defaults demo_config = None \<and>
   ttl (negative_lru (fst (NewServerPublicKeyResolver demo_config))) = 10000000000 \<and>
   Defaults zero_config = Some \<lparr>UnauthenticatedLruTimeoutSec = 0\<rparr> \<and>
   ttl (negative_lru (fst (NewServerPublicKeyResolver zero_config))) = 10000000000 \<and>
   Defaults minute_config = Some \<lparr>UnauthenticatedLruTimeoutSec = 60\<rparr> \<and>
   ttl (negative_lru (fst (NewServerPublicKeyResolver minute_config))) = 60000000000 \<and>
   Defaults negative_config = Some \<lparr>UnauthenticatedLruTimeoutSec = - 1\<rparr> \<and>
   sint (- 1 :: 64 word) < 0 \<and>
   fst (NewServerPublicKeyResolver negative_config) = \<lparr>negative_lru = NewCache\<rparr>"
proof -
  have h1: "Defaults demo_config = None" by (simp add: demo_config_def)
  have h2: "Defaults zero_config = Some \<lparr>UnauthenticatedLruTimeoutSec = 0\<rparr> \<and>
      UnauthenticatedLruTimeoutSec \<lparr>UnauthenticatedLruTimeoutSec = 0\<rparr> = 0"
    by (simp add: zero_config_def)
  have h3: "Defaults minute_config = Some \<lparr>UnauthenticatedLruTimeoutSec = 60\<rparr> \<and>
      0 < sint (UnauthenticatedLruTimeoutSec \<lparr>UnauthenticatedLruTimeoutSec = 60\<rparr>) \<and>
      sint (UnauthenticatedLruTimeoutSec \<lparr>UnauthenticatedLruTimeoutSec = 60\<rparr>) \<le> 9223372036"
    by (simp add: minute_config_def)
  have h4: "Defaults negative_config = Some \<lparr>UnauthenticatedLruTimeoutSec = - 1\<rparr> \<and>
      sint (UnauthenticatedLruTimeoutSec \<lparr>UnauthenticatedLruTimeoutSec = - 1\<rparr>) < 0"
    by (simp add: negative_config_def)
  from h1 NewServerPublicKeyResolver_ttl [where config_obj = demo_config]
  have r1: "ttl (negative_lru (fst (NewServerPublicKeyResolver demo_config))) = 10 * 1000000000"
    by blast
  from h2 NewServerPublicKeyResolver_ttl [where config_obj = zero_config
      and d = "\<lparr>UnauthenticatedLruTimeoutSec = 0\<rparr>"]
  have r2: "ttl (negative_lru (fst (NewServerPublicKeyResolver zero_config))) = 10 * 1000000000"
    by blast
  from h3 NewServerPublicKeyResolver_ttl [where config_obj = minute_config
      and d = "\<lparr>UnauthenticatedLruTimeoutSec = 60\<rparr>"]
  have r3: "ttl (negative_lru (fst (NewServerPublicKeyResolver minute_config)))
      = sint (UnauthenticatedLruTimeoutSec \<lparr>UnauthenticatedLruTimeoutSec = 60\<rparr>) * 1000000000"
    by blast
  from h4 NewServerPublicKeyResolver_ttl [where config_obj = negative_config
      and d = "\<lparr>UnauthenticatedLruTimeoutSec = - 1\<rparr>"]
  have r4: "fst (NewServerPublicKeyResolver negative_config) = \<lparr>negative_lru = NewCache\<rparr>"
    by blast
  from h1 h2 h3 h4 r1 r2 r3 r4 show ?thesis by simp
qed

text \<open>
  With the setting \<open>-1\<close> the negative cache is in use: the first \<^verbatim>\<open>GetPublicKey\<close> for an
  unknown identifier reads the store once, and one an hour later is answered from the
  cache, the read counter still at one.
\<close>

theorem negative_timeout_still_caches:
  "Defaults negative_config = Some \<lparr>UnauthenticatedLruTimeoutSec = - 1\<rparr> \<and>
   sint (- 1 :: 64 word) < 0 \<and>
   resolver negative_world = fst (NewServerPublicKeyResolver negative_config) \<and>
   GetPublicKey demo_ext 0 negative_world negative_config ''C.unknown''
     = ((None, False), negative_world_1) \<and>
   reads (store negative_world) = 0 \<and>
   reads (store negative_world_1) = 1 \<and>
   fst (Cache_Get (negative_lru (resolver negative_world_1)) ''C.unknown'' 3600000000000) = None \<and>
   fst (GetPublicKey demo_ext 3600000000000 negative_world_1 negative_config ''C.unknown'')
     = (None, False) \<and>
   reads (store (snd (GetPublicKey demo_ext 3600000000000 negative_world_1 negative_config
     ''C.unknown''))) = 1"
proof -
  have hit: "fst (Cache_Get (negative_lru (resolver negative_world_1)) ''C.unknown''
      3600000000000) = None"
    unfolding negative_world_1_eq(2) by (rule Cache_Get_Set_live) (simp add: NewCache_def)
  note r = GetPublicKey_hit [OF hit, of demo_ext negative_config]
  have a: "Defaults negative_config = Some \<lparr>UnauthenticatedLruTimeoutSec = - 1\<rparr>"
    by (simp add: negative_config_def)
  have b: "sint (- 1 :: 64 word) < 0" by simp
  have c: "resolver negative_world = fst (NewServerPublicKeyResolver negative_config)"
    by (simp add: negative_world_def)
  have d: "reads (store negative_world) = 0"
    by (simp add: negative_world_def demo_store_def)
  from a b c d hit r negative_world_1_eq show ?thesis by simp
qed

end
